theory Spec2Isabelle
  imports Complex_Main "HOL-Library.AList"
begin

section \<open>JavaScript strings\<close>

text \<open>
  A JavaScript string is a sequence of 16-bit code units, here natural numbers; \<open>js\<close> turns
  a text written in this file into its code units.
\<close>

type_synonym jstring = "nat list"

definition js :: "char list \<Rightarrow> jstring" where
  "js s = map of_char s"

section \<open>Browser storage\<close>

text \<open>
  The chat component of \<^verbatim>\<open>ChatInterface.jsx\<close> keeps two items in the browser's
  \<^verbatim>\<open>localStorage\<close>: the theme under \<^verbatim>\<open>LS_THEME_KEY\<close> and, under \<^verbatim>\<open>LS_DELETED_KEY\<close>, a
  JSON object \<^verbatim>\<open>{ [conversationId]: [msgId, ...] }\<close> of the message ids the user deleted.
  The older variant of the component keeps its theme under \<^verbatim>\<open>"rockbot_theme"\<close>, and the
  \<^verbatim>\<open>ThemeToggle\<close> component of \<^verbatim>\<open>theme-toggle.jsx\<close> keeps its own item under the key
  \<^verbatim>\<open>"theme"\<close>. The class \<^verbatim>\<open>dark\<close> of the document root is the only part of the DOM the
  theme code touches.

  The item under \<^verbatim>\<open>LS_DELETED_KEY\<close> is written by \<^verbatim>\<open>writeDeletedMap\<close> only, so what
  \<^verbatim>\<open>JSON.parse\<close> makes of it is an object whose own properties are arrays of strings
  (\<^verbatim>\<open>Record<string, string[]>\<close> in the source's annotations): an association list, the order
  of its keys playing no role below. A stored text that \<^verbatim>\<open>JSON.parse\<close> rejects is
  \<open>Unparseable\<close>, and a missing item is \<open>None\<close> (\<^verbatim>\<open>getItem\<close> returns \<^verbatim>\<open>null\<close>). Writing an
  object and reading it back gives the same object: \<^verbatim>\<open>JSON.stringify\<close> followed by
  \<^verbatim>\<open>JSON.parse\<close> is the identity on objects of string arrays.

  The storage can refuse: when it is \<open>Full\<close>, \<^verbatim>\<open>setItem\<close> throws and \<^verbatim>\<open>getItem\<close> works; when
  access to it is \<open>Blocked\<close>, \<^verbatim>\<open>getItem\<close> and \<^verbatim>\<open>setItem\<close> both throw.
\<close>

type_synonym deleted_map = "(jstring \<times> jstring list) list"

datatype stored_item = Unparseable | Parsed deleted_map

datatype storage_state = Available | Full | Blocked

datatype js_error = TypeError | StorageError

record browser =
  storage :: storage_state
  ls_deleted :: "stored_item option"
  ls_theme :: "jstring option"
  ls_theme_p2 :: "jstring option"
  ls_toggle_theme :: "jstring option"
  dark_class :: bool

fun safeParseJSON :: "stored_item \<Rightarrow> deleted_map \<Rightarrow> deleted_map" where
  "safeParseJSON (Parsed m) fallback = m"
| "safeParseJSON Unparseable fallback = fallback"

text \<open>
  \<^verbatim>\<open>readDeletedMap\<close> catches what \<^verbatim>\<open>getItem\<close> throws and answers with the empty object;
  \<^verbatim>\<open>writeDeletedMap\<close> catches what \<^verbatim>\<open>setItem\<close> throws, and then nothing is stored.
\<close>

definition readDeletedMap :: "browser \<Rightarrow> deleted_map" where
  "readDeletedMap b =
     (if storage b = Blocked then []
      else case ls_deleted b of None \<Rightarrow> [] | Some raw \<Rightarrow> safeParseJSON raw [])"

definition writeDeletedMap :: "deleted_map \<Rightarrow> browser \<Rightarrow> browser" where
  "writeDeletedMap m b = (if storage b = Available then b\<lparr>ls_deleted := Some (Parsed m)\<rparr> else b)"

text \<open>
  Reading the property \<^verbatim>\<open>map[conversationId]\<close> of the parsed object: the object's own
  property when it has one, and otherwise what every object inherits from
  \<^verbatim>\<open>Object.prototype\<close> under that name, a function or an object, which is truthy and is not
  an array.
\<close>

definition inherited :: "jstring \<Rightarrow> bool" where
  "inherited k \<longleftrightarrow>
     k \<in> set (map js [''constructor'', ''__proto__'', ''hasOwnProperty'', ''isPrototypeOf'',
                       ''propertyIsEnumerable'', ''toLocaleString'', ''toString'', ''valueOf'',
                       ''__defineGetter__'', ''__defineSetter__'', ''__lookupGetter__'',
                       ''__lookupSetter__''])"

datatype property = Undefined | Array "jstring list" | Inherited

definition property_of :: "deleted_map \<Rightarrow> jstring \<Rightarrow> property" where
  "property_of m k =
     (case map_of m k of
        Some xs \<Rightarrow> Array xs
      | None \<Rightarrow> if inherited k then Inherited else Undefined)"

text \<open>
  \<^verbatim>\<open>if (!map[conversationId]) map[conversationId] = [];\<close>
  \<^verbatim>\<open>if (!map[conversationId].includes(msgId)) map[conversationId].push(msgId);\<close>
  An array is truthy even when empty, so only a missing key gets the fresh array. An
  inherited value is truthy and has no \<^verbatim>\<open>includes\<close>: the call throws a \<^verbatim>\<open>TypeError\<close> and
  nothing is written.
\<close>

definition markMessageDeletedLocally :: "jstring \<Rightarrow> jstring \<Rightarrow> browser \<Rightarrow> js_error + browser" where
  "markMessageDeletedLocally conversationId msgId b =
     (let map0 = readDeletedMap b
      in case property_of map0 conversationId of
           Inherited \<Rightarrow> Inl TypeError
         | Undefined \<Rightarrow> Inr (writeDeletedMap (AList.update conversationId [msgId] map0) b)
         | Array ids \<Rightarrow>
             Inr (writeDeletedMap
                    (if msgId \<in> set ids then map0
                     else AList.update conversationId (ids @ [msgId]) map0) b))"

text \<open>
  \<^verbatim>\<open>return Array.isArray(map[conversationId]) && map[conversationId].includes(msgId);\<close>
\<close>

definition isMessageLocallyDeleted :: "browser \<Rightarrow> jstring \<Rightarrow> jstring \<Rightarrow> bool" where
  "isMessageLocallyDeleted b conversationId msgId =
     (case property_of (readDeletedMap b) conversationId of
        Array xs \<Rightarrow> msgId \<in> set xs
      | _ \<Rightarrow> False)"

text \<open>
  \<^verbatim>\<open>if (!map[conversationId]) return;\<close>
  \<^verbatim>\<open>map[conversationId] = map[conversationId].filter((id) => id !== msgId);\<close>
  An inherited value has no \<^verbatim>\<open>filter\<close>, and the call throws.
\<close>

definition removeLocalDeletedMark :: "jstring \<Rightarrow> jstring \<Rightarrow> browser \<Rightarrow> js_error + browser" where
  "removeLocalDeletedMark conversationId msgId b =
     (let map0 = readDeletedMap b
      in case property_of map0 conversationId of
           Undefined \<Rightarrow> Inr b
         | Inherited \<Rightarrow> Inl TypeError
         | Array xs \<Rightarrow>
             Inr (writeDeletedMap (AList.update conversationId (filter (\<lambda>i. i \<noteq> msgId) xs) map0) b))"

text \<open>The list of ids stored for a conversation, empty when the key is missing.\<close>

definition stored_ids :: "browser \<Rightarrow> jstring \<Rightarrow> jstring list" where
  "stored_ids b conversationId =
     (case map_of (readDeletedMap b) conversationId of None \<Rightarrow> [] | Some xs \<Rightarrow> xs)"

text \<open>
  The two writers keep every stored list free of duplicates; the predicate says so for the
  whole object.
\<close>

definition ids_distinct :: "browser \<Rightarrow> bool" where
  "ids_distinct b = list_all (\<lambda>kv. distinct (snd kv)) (readDeletedMap b)"

section \<open>Values shared by both variants of the chat component\<close>

text \<open>
  The repository holds two variants of the chat component: \<^verbatim>\<open>ChatInterface.jsx\<close>, which has
  the local deletion record, the theme item and the scroll logic, and an older variant
  whose file name is not known (its functions carry the suffix \<open>_p2\<close> below). Both work on
  the same message and conversation objects.

  An uploaded file is the object \<^verbatim>\<open>{ localUrl, name, data, error }\<close> that the inline uploader
  hands over; \<open>data\<close> is the backend's JSON answer, kept as text, or \<open>None\<close> for \<^verbatim>\<open>null\<close>.
\<close>

record upload =
  localUrl :: jstring
  name :: jstring
  data :: "jstring option"
  error :: "jstring option"

text \<open>
  A message object. The fields \<^verbatim>\<open>id\<close> and \<^verbatim>\<open>file\<close> are \<open>msg_id\<close> and \<open>msg_file\<close>; the
  fields \<^verbatim>\<open>sending\<close>, \<^verbatim>\<open>likes\<close> and \<^verbatim>\<open>dislikes\<close> exist only on the objects of the older
  variant and are \<open>None\<close> on the others.
\<close>

record message =
  msg_id :: jstring
  role :: jstring
  content :: jstring
  timestamp :: jstring
  msg_file :: "upload option"
  sending :: "bool option"
  likes :: "nat option"
  dislikes :: "nat option"

text \<open>
  A conversation object; every field may be missing (\<^verbatim>\<open>{ id }\<close>, or the object without an
  id that \<^verbatim>\<open>{ ...null, title, updated_at }\<close> builds).
\<close>

record conversation =
  conv_id :: "jstring option"
  title :: "jstring option"
  created_at :: "jstring option"
  updated_at :: "jstring option"

text \<open>
  The outcome of \<^verbatim>\<open>fetch\<close> as the handlers see it: the promise is rejected with an error
  message, or a response arrives with its status, status text, body text, and the outcome
  of \<^verbatim>\<open>res.json()\<close> (the message of the parse error, or the parsed value).
\<close>

datatype 'a fetch_result =
    Rejected jstring
  | Response nat jstring jstring "jstring + 'a"

definition ok :: "nat \<Rightarrow> bool" where
  "ok status \<longleftrightarrow> 200 \<le> status \<and> status \<le> 299"

text \<open>A request fails when it is rejected or when its response has a status outside 200 to 299.\<close>

definition failed :: "'a fetch_result \<Rightarrow> bool" where
  "failed result = (case result of Rejected e \<Rightarrow> True | Response status statusText text parsed \<Rightarrow> \<not> ok status)"

text \<open>
  The parsed body a handler gets to work with: none when the request is rejected, the
  status is not ok, or the body is not JSON, since each of these throws before.
\<close>

definition json_of :: "'a fetch_result \<Rightarrow> 'a option" where
  "json_of result =
     (case result of
        Rejected e \<Rightarrow> None
      | Response status statusText text parsed \<Rightarrow>
          if ok status then (case parsed of Inl e \<Rightarrow> None | Inr v \<Rightarrow> Some v) else None)"

text \<open>JavaScript's truthiness of an optional string, and \<^verbatim>\<open>a || b\<close> on one.\<close>

definition truthy :: "jstring option \<Rightarrow> bool" where
  "truthy v = (case v of None \<Rightarrow> False | Some x \<Rightarrow> x \<noteq> [])"

definition or_else :: "jstring option \<Rightarrow> jstring \<Rightarrow> jstring" where
  "or_else v d = (case v of None \<Rightarrow> d | Some x \<Rightarrow> if x = [] then d else x)"

definition or_opt :: "jstring option \<Rightarrow> jstring option \<Rightarrow> jstring option" where
  "or_opt v w = (if truthy v then v else w)"

text \<open>A property key made from an optional id: \<^verbatim>\<open>undefined\<close> becomes the key \<^verbatim>\<open>"undefined"\<close>.\<close>

definition key_of :: "jstring option \<Rightarrow> jstring" where
  "key_of v = (case v of None \<Rightarrow> (js ''undefined'') | Some x \<Rightarrow> x)"

text \<open>
  \<^verbatim>\<open>uid(prefix)\<close> is the prefix followed by seven random characters; the random part is an
  input of the model.
\<close>

definition uid :: "jstring \<Rightarrow> jstring \<Rightarrow> jstring" where
  "uid prefix rnd = prefix @ rnd"

text \<open>
  \<^verbatim>\<open>String.prototype.trim\<close> removes the code units of white space and of line terminators
  from both ends: U+0009 to U+000D, U+0020, U+00A0, U+1680, U+2000 to U+200A, U+2028, U+2029,
  U+202F, U+205F, U+3000 and U+FEFF.
\<close>

definition is_space :: "nat \<Rightarrow> bool" where
  "is_space u \<longleftrightarrow>
     u \<in> set [0x09, 0x0A, 0x0B, 0x0C, 0x0D, 0x20, 0xA0, 0x1680, 0x2000, 0x2001, 0x2002, 0x2003,
               0x2004, 0x2005, 0x2006, 0x2007, 0x2008, 0x2009, 0x200A, 0x2028, 0x2029, 0x202F,
               0x205F, 0x3000, 0xFEFF]"

definition trim :: "jstring \<Rightarrow> jstring" where
  "trim s = rev (dropWhile is_space (rev (dropWhile is_space s)))"

text \<open>Decimal rendering of a status code inside a template string.\<close>

definition digit_char :: "nat \<Rightarrow> nat" where
  "digit_char d = (js ''0123456789'') ! d"

function show_nat :: "nat \<Rightarrow> jstring" where
  "show_nat n = (if n < 10 then [digit_char n] else show_nat (n div 10) @ [digit_char (n mod 10)])"
  by pat_completeness auto
termination
  by (relation "measure (\<lambda>n. n)") auto

declare show_nat.simps [simp del]

text \<open>
  A request body before \<^verbatim>\<open>JSON.stringify\<close>: the properties in the order written, each with
  its value. \<^verbatim>\<open>JSON.stringify\<close> leaves out the properties whose value is \<^verbatim>\<open>undefined\<close>.
\<close>

datatype jv = JUndefined | JNull | JStr jstring | JRaw jstring

type_synonym body = "(jstring \<times> jv) list"

definition body_fields :: "body \<Rightarrow> jstring list" where
  "body_fields b = map fst (filter (\<lambda>kv. snd kv \<noteq> JUndefined) b)"

definition jstr_opt :: "jstring option \<Rightarrow> jv" where
  "jstr_opt v = (case v of None \<Rightarrow> JUndefined | Some x \<Rightarrow> JStr x)"

text \<open>
  The JSON object that \<^verbatim>\<open>/api/chat\<close> answers with, as the two variants read it:
  \<^verbatim>\<open>ChatInterface.jsx\<close> reads \<^verbatim>\<open>response\<close>, \<^verbatim>\<open>user_msg_id\<close>, \<^verbatim>\<open>assistant_msg_id\<close> and
  \<^verbatim>\<open>conversation_title\<close>; the older variant reads \<^verbatim>\<open>ai_response\<close>, \<^verbatim>\<open>response\<close>,
  \<^verbatim>\<open>user_message.id\<close>, \<^verbatim>\<open>user_message_id\<close> and \<^verbatim>\<open>conversation_id\<close>. A property that is
  missing is \<open>None\<close>. \<^verbatim>\<open>ai_response\<close> is a string, a message object, or an array of these;
  \<open>ai_json\<close> is \<^verbatim>\<open>JSON.stringify\<close> of the object.
\<close>

record ai_object =
  ai_id :: "jstring option"
  ai_content :: "jstring option"
  ai_text :: "jstring option"
  ai_timestamp :: "jstring option"
  ai_likes :: "nat option"
  ai_dislikes :: "nat option"
  ai_json :: jstring

datatype ai_item = AiString jstring | AiObject ai_object

datatype ai_value = AiOne ai_item | AiArray "ai_item list"

record chat_response =
  response :: "jstring option"
  user_msg_id :: "jstring option"
  assistant_msg_id :: "jstring option"
  conversation_title :: "jstring option"
  ai_response :: "ai_value option"
  user_message :: "message option"
  user_message_id :: "jstring option"
  conversation_id :: "jstring option"

section \<open>The component of ChatInterface.jsx\<close>

text \<open>
  The scroll container as the scroll logic reads it: \<^verbatim>\<open>scrollHeight\<close> and \<^verbatim>\<open>clientHeight\<close> are
  integers, \<^verbatim>\<open>scrollTop\<close> is a double, kept as the rational number it stands for. The state
  keeps what \<^verbatim>\<open>scrollRef.current\<close> holds.
\<close>

record scroll_element =
  scrollHeight :: int
  clientHeight :: int
  scrollTop :: rat

text \<open>
  The React state of the component together with the page it runs in. The state variables
  \<^verbatim>\<open>agents\<close>, \<^verbatim>\<open>showSidebar\<close> and \<^verbatim>\<open>sidebarHover\<close> are left out: no operation below reads or
  writes them.
\<close>

record app =
  conversations :: "conversation list"
  currentConversation :: "conversation option"
  messages :: "message list"
  input :: jstring
  isSending :: bool
  isTyping :: bool
  selectedAgent :: jstring
  theme :: jstring
  editingId :: "jstring option"
  editingText :: jstring
  uploadedFile :: "upload option"
  manualScroll :: bool
  scrollRef :: "scroll_element option"
  page :: browser

definition initial_state :: "browser \<Rightarrow> app" where
  "initial_state b =
     \<lparr>conversations = [], currentConversation = None, messages = [], input = [],
      isSending = False, isTyping = False, selectedAgent = (js ''general''), theme = (js ''light''),
      editingId = None, editingText = [], uploadedFile = None, manualScroll = False,
      scrollRef = None, page = b\<rparr>"

subsection \<open>Theme\<close>

text \<open>
  Neither theme effect guards its access to the storage. What \<^verbatim>\<open>getItem\<close> or \<^verbatim>\<open>setItem\<close>
  throws there leaves the effect uncaught, and React takes the component off the page: the
  result is the error instead of a state.

  The effect on \<^verbatim>\<open>[]\<close> reads \<^verbatim>\<open>localStorage.getItem(LS_THEME_KEY) || "light"\<close> and hands it to
  \<^verbatim>\<open>setTheme\<close>; its result here is that value.
\<close>

definition stored_theme_effect :: "app \<Rightarrow> js_error + jstring" where
  "stored_theme_effect s =
     (if storage (page s) = Blocked then Inl StorageError
      else Inr (or_else (ls_theme (page s)) (js ''light'')))"

text \<open>
  The effect on \<^verbatim>\<open>[theme]\<close>:
  \<^verbatim>\<open>classList.toggle("dark", theme === "dark"); localStorage.setItem(LS_THEME_KEY, theme)\<close>.
\<close>

definition theme_effect :: "app \<Rightarrow> js_error + app" where
  "theme_effect s =
     (if storage (page s) = Available
      then Inr (s\<lparr>page := (page s)\<lparr>dark_class := (theme s = (js ''dark'')), ls_theme := Some (theme s)\<rparr>\<rparr>)
      else Inl StorageError)"

text \<open>The render after \<^verbatim>\<open>setTheme(t)\<close>: the theme effect runs when the theme has changed.\<close>

definition setTheme :: "jstring \<Rightarrow> app \<Rightarrow> js_error + app" where
  "setTheme t s = (if t = theme s then Inr s else theme_effect (s\<lparr>theme := t\<rparr>))"

text \<open>
  Mounting. The first render has \<^verbatim>\<open>theme = "light"\<close>. In a production build the two effects
  run once, in the order they are written, and then the queued \<^verbatim>\<open>setTheme\<close> is rendered.
  \<^verbatim>\<open>main.jsx\<close> renders the application inside \<^verbatim>\<open>React.StrictMode\<close>, under which a development
  build runs the effects of a mounting component a second time before it renders the queued
  updates: both effects run again on the state of the first render, and of the two queued
  \<^verbatim>\<open>setTheme\<close> calls the later one decides.
\<close>

datatype build = Production | Development

definition mount :: "build \<Rightarrow> browser \<Rightarrow> js_error + app" where
  "mount bld b =
     (let s0 = initial_state b in
      case stored_theme_effect s0 of
        Inl e \<Rightarrow> Inl e
      | Inr storedTheme \<Rightarrow>
          (case theme_effect s0 of
             Inl e \<Rightarrow> Inl e
           | Inr s1 \<Rightarrow>
               (case bld of
                  Production \<Rightarrow> setTheme storedTheme s1
                | Development \<Rightarrow>
                    (case stored_theme_effect s1 of
                       Inl e \<Rightarrow> Inl e
                     | Inr storedTheme' \<Rightarrow>
                         (case theme_effect s1 of
                            Inl e \<Rightarrow> Inl e
                          | Inr s2 \<Rightarrow> setTheme storedTheme' s2)))))"

definition toggleTheme :: "app \<Rightarrow> js_error + app" where
  "toggleTheme s = setTheme (if theme s = (js ''light'') then (js ''dark'') else (js ''light'')) s"

text \<open>
  Reloading the page: the React state is gone, the document is new, \<^verbatim>\<open>localStorage\<close> stays.
\<close>

definition reload :: "build \<Rightarrow> app \<Rightarrow> js_error + app" where
  "reload bld s = mount bld ((page s)\<lparr>dark_class := False\<rparr>)"

subsection \<open>Loading the messages of the current conversation\<close>

text \<open>
  The effect on \<^verbatim>\<open>[currentConversation]\<close> empties the list when there is no conversation and
  otherwise starts \<^verbatim>\<open>loadMessages\<close>, which closes over the conversation of that render.
\<close>

definition currentConversation_effect :: "app \<Rightarrow> app \<times> conversation option" where
  "currentConversation_effect s =
     (case currentConversation s of
        None \<Rightarrow> (s\<lparr>messages := []\<rparr>, None)
      | Some c \<Rightarrow> (s, Some c))"

definition loadMessages_fallback :: "jstring \<Rightarrow> jstring \<Rightarrow> app \<Rightarrow> app" where
  "loadMessages_fallback rnd now s =
     s\<lparr>messages :=
         [\<lparr>msg_id = uid (js ''msg-'') rnd, role = (js ''assistant''),
           content = (js ''Hello! How can I help you today?''), timestamp = now,
           msg_file = None, sending = None, likes = None, dislikes = None\<rparr>]\<rparr>"

text \<open>
  \<^verbatim>\<open>loadMessages\<close> once the request has settled. The parsed body is \<^verbatim>\<open>json.messages\<close>, \<open>None\<close>
  when the property is missing. The deletion filter reads the storage at that moment.
\<close>

definition loadMessages ::
  "jstring \<Rightarrow> jstring \<Rightarrow> conversation \<Rightarrow> message list option fetch_result \<Rightarrow> app \<Rightarrow> app" where
  "loadMessages rnd now conv result s =
     (case result of
        Rejected e \<Rightarrow> loadMessages_fallback rnd now s
      | Response status statusText text parsed \<Rightarrow>
          if \<not> ok status then loadMessages_fallback rnd now s
          else case parsed of
                 Inl e \<Rightarrow> loadMessages_fallback rnd now s
               | Inr json_messages \<Rightarrow>
                   (let loadedMessages = (case json_messages of None \<Rightarrow> [] | Some ms \<Rightarrow> ms)
                    in s\<lparr>messages :=
                         filter (\<lambda>msg. \<not> isMessageLocallyDeleted (page s) (key_of (conv_id conv)) (msg_id msg))
                           loadedMessages\<rparr>))"

definition selectConversation :: "conversation \<Rightarrow> app \<Rightarrow> app" where
  "selectConversation c s = s\<lparr>currentConversation := Some c\<rparr>"

subsection \<open>Deleting a message\<close>

datatype request = Request jstring jstring "body option"

text \<open>
  \<^verbatim>\<open>deleteMessage\<close> up to its \<^verbatim>\<open>await\<close>: nothing without a current conversation; otherwise the
  list is filtered, the id is marked in the storage, and the request leaves. The call of
  \<^verbatim>\<open>markMessageDeletedLocally\<close> stands before the \<^verbatim>\<open>try\<close>: when it throws, the list has been
  filtered, the handler ends there, and no request leaves. The second component is the
  request with the conversation of the render, and \<open>None\<close> when the handler has ended.
\<close>

definition deleteMessage_start :: "message \<Rightarrow> app \<Rightarrow> app \<times> (conversation \<times> request) option" where
  "deleteMessage_start msg s =
     (case currentConversation s of
        None \<Rightarrow> (s, None)
      | Some c \<Rightarrow>
          (let s1 = s\<lparr>messages := filter (\<lambda>m. msg_id m \<noteq> msg_id msg) (messages s)\<rparr>
           in case markMessageDeletedLocally (key_of (conv_id c)) (msg_id msg) (page s) of
                Inl e \<Rightarrow> (s1, None)
              | Inr b \<Rightarrow>
                  (s1\<lparr>page := b\<rparr>,
                   Some (c, Request (js ''DELETE'') ((js ''/messages/'') @ msg_id msg) None))))"

text \<open>
  After the \<^verbatim>\<open>await\<close>: a response that is not ok throws, and so does a rejected request; the
  handler of the exception only logs, also when it is \<^verbatim>\<open>removeLocalDeletedMark\<close> that throws.
  The conversation is the one of the render in which the handler was called.
\<close>

definition deleteMessage_finish :: "conversation \<Rightarrow> message \<Rightarrow> unit fetch_result \<Rightarrow> app \<Rightarrow> app" where
  "deleteMessage_finish c msg result s =
     (case result of
        Rejected e \<Rightarrow> s
      | Response status statusText text parsed \<Rightarrow>
          if \<not> ok status then s
          else case removeLocalDeletedMark (key_of (conv_id c)) (msg_id msg) (page s) of
                 Inl e \<Rightarrow> s
               | Inr b \<Rightarrow> s\<lparr>page := b\<rparr>)"

definition deleteMessage :: "message \<Rightarrow> unit fetch_result \<Rightarrow> app \<Rightarrow> app" where
  "deleteMessage msg result s =
     (case deleteMessage_start msg s of
        (s', None) \<Rightarrow> s'
      | (s', Some (c, req)) \<Rightarrow> deleteMessage_finish c msg result s')"

subsection \<open>The invariant of the list\<close>

text \<open>The invariant of the list: no shown message is marked for the current conversation.\<close>

definition no_deleted_shown :: "app \<Rightarrow> bool" where
  "no_deleted_shown s =
     (case currentConversation s of
        None \<Rightarrow> True
      | Some c \<Rightarrow>
          list_all (\<lambda>m. \<not> isMessageLocallyDeleted (page s) (key_of (conv_id c)) (msg_id m)) (messages s))"

subsection \<open>Sending a message\<close>

text \<open>
  What \<^verbatim>\<open>sendMessage\<close> keeps across its \<^verbatim>\<open>await\<close>: the temporary id, the conversation id it
  sends, the \<^verbatim>\<open>currentConversation\<close> of the render in which it was called, and the
  conversation it has made current on the way, if it made one.
\<close>

record send_ctx =
  ctx_tempMsgId :: jstring
  ctx_convId :: jstring
  ctx_conversation :: "conversation option"
  ctx_newConv :: "conversation option"
  ctx_request :: request

definition chat_payload :: "jstring \<Rightarrow> jstring \<Rightarrow> jstring \<Rightarrow> upload option \<Rightarrow> body" where
  "chat_payload convId agent userMessage upl =
     [((js ''conversation_id''), JStr convId),
      ((js ''agent_id''), JStr agent),
      ((js ''message''), JStr userMessage),
      ((js ''file_data''), (case upl of None \<Rightarrow> JUndefined
                       | Some u \<Rightarrow> (case data u of None \<Rightarrow> JNull | Some d \<Rightarrow> JRaw d))),
      ((js ''file_name''), (case upl of None \<Rightarrow> JUndefined | Some u \<Rightarrow> JStr (name u)))]"

text \<open>
  \<^verbatim>\<open>sendMessage\<close> up to \<^verbatim>\<open>await fetch\<close>. \<open>rnd_msg\<close> and \<open>rnd_conv\<close> are the random parts of the
  two \<^verbatim>\<open>uid\<close> calls and \<open>now\<close> is the clock, read once for the whole step.
\<close>

definition sendMessage_start :: "jstring \<Rightarrow> jstring \<Rightarrow> jstring \<Rightarrow> app \<Rightarrow> app \<times> send_ctx option" where
  "sendMessage_start rnd_msg rnd_conv now s =
     (if isSending s \<or> (trim (input s) = [] \<and> uploadedFile s = None) then (s, None)
      else
        let userMessage = trim (input s) in
        if userMessage = [] \<and> uploadedFile s = None then (s, None)
        else
          let tempMsgId = uid (js ''msg-temp-'') rnd_msg;
              newMessage = \<lparr>msg_id = tempMsgId, role = (js ''user''), content = userMessage,
                            timestamp = now, msg_file = uploadedFile s,
                            sending = None, likes = None, dislikes = None\<rparr>;
              s1 = s\<lparr>isSending := True, input := [], uploadedFile := None,
                     messages := messages s @ [newMessage]\<rparr>;
              convId0 = (case currentConversation s of None \<Rightarrow> None | Some c \<Rightarrow> conv_id c);
              newConv = \<lparr>conv_id = Some (uid (js ''conv-'') rnd_conv),
                         title = Some (take 30 userMessage @ (if length userMessage > 30 then (js ''...'') else [])),
                         created_at = Some now, updated_at = Some now\<rparr>;
              s2 = (if truthy convId0 then s1
                    else s1\<lparr>conversations := newConv # conversations s1,
                            currentConversation := Some newConv\<rparr>);
              convId = (if truthy convId0 then key_of convId0 else uid (js ''conv-'') rnd_conv);
              s3 = s2\<lparr>isTyping := True\<rparr>;
              payload = chat_payload convId (selectedAgent s) userMessage (uploadedFile s)
          in (s3, Some \<lparr>ctx_tempMsgId = tempMsgId, ctx_convId = convId,
                         ctx_conversation = currentConversation s,
                         ctx_newConv = (if truthy convId0 then None else Some newConv),
                         ctx_request = Request (js ''POST'') (js ''/chat'') (Some payload)\<rparr>))"

text \<open>
  The id the handler finds, \<^verbatim>\<open>currentConversation?.id\<close>, and the conversation that step makes
  current when that id is not truthy.
\<close>

definition current_id :: "app \<Rightarrow> jstring option" where
  "current_id s = (case currentConversation s of None \<Rightarrow> None | Some c \<Rightarrow> conv_id c)"

definition new_conversation :: "jstring \<Rightarrow> jstring \<Rightarrow> app \<Rightarrow> conversation" where
  "new_conversation rnd_conv now s =
     \<lparr>conv_id = Some (uid (js ''conv-'') rnd_conv),
      title = Some (take 30 (trim (input s)) @ (if length (trim (input s)) > 30 then (js ''...'') else [])),
      created_at = Some now, updated_at = Some now\<rparr>"

text \<open>The message that step adds to the list.\<close>

definition optimistic_message :: "jstring \<Rightarrow> jstring \<Rightarrow> app \<Rightarrow> message" where
  "optimistic_message rnd_msg now s =
     \<lparr>msg_id = uid (js ''msg-temp-'') rnd_msg, role = (js ''user''), content = trim (input s),
      timestamp = now, msg_file = uploadedFile s, sending = None, likes = None, dislikes = None\<rparr>"

text \<open>
  The reconciliation of the temporary id:
  \<^verbatim>\<open>prev.map((msg) => (msg.id === tempMsgId ? { ...msg, id: responseData.user_msg_id || tempMsgId } : msg))\<close>.
\<close>

definition reconcile :: "jstring \<Rightarrow> jstring option \<Rightarrow> message list \<Rightarrow> message list" where
  "reconcile tempMsgId server_id ms =
     map (\<lambda>msg. if msg_id msg = tempMsgId then msg\<lparr>msg_id := or_else server_id tempMsgId\<rparr> else msg) ms"

definition sendMessage_catch :: "jstring \<Rightarrow> jstring \<Rightarrow> jstring \<Rightarrow> app \<Rightarrow> app" where
  "sendMessage_catch rnd now e_message s =
     s\<lparr>messages := messages s @
         [\<lparr>msg_id = uid (js ''msg-error-'') rnd, role = (js ''assistant''),
           content = (js ''**Error:** '') @ e_message @ (js ''. Please try again.''), timestamp = now,
           msg_file = None, sending = None, likes = None, dislikes = None\<rparr>]\<rparr>"

definition sendMessage_finally :: "app \<Rightarrow> app" where
  "sendMessage_finally s = s\<lparr>isSending := False, isTyping := False\<rparr>"

definition sendMessage_success :: "jstring \<Rightarrow> jstring \<Rightarrow> send_ctx \<Rightarrow> chat_response \<Rightarrow> app \<Rightarrow> app" where
  "sendMessage_success rnd now ctx responseData s =
     (let s1 = s\<lparr>messages := reconcile (ctx_tempMsgId ctx) (user_msg_id responseData) (messages s)\<rparr>;
          assistantMessage =
            \<lparr>msg_id = or_else (assistant_msg_id responseData) (uid (js ''msg-'') rnd),
             role = (js ''assistant''),
             content = or_else (response responseData) (js ''Sorry, I couldn't process that request.''),
             timestamp = now, msg_file = None, sending = None, likes = None, dislikes = None\<rparr>;
          s2 = s1\<lparr>messages := messages s1 @ [assistantMessage]\<rparr>
      in case ctx_conversation ctx of
           None \<Rightarrow> s2
         | Some cc \<Rightarrow>
             if Some (ctx_convId ctx) = conv_id cc then
               (let newTitle = or_opt (conversation_title responseData) (title cc)
                in s2\<lparr>currentConversation :=
                        Some (case currentConversation s2 of
                                None \<Rightarrow> \<lparr>conv_id = None, title = newTitle,
                                          created_at = None, updated_at = Some now\<rparr>
                              | Some prev \<Rightarrow> prev\<lparr>title := newTitle, updated_at := Some now\<rparr>),
                      conversations :=
                        map (\<lambda>c. if conv_id c = Some (ctx_convId ctx)
                                  then c\<lparr>title := newTitle, updated_at := Some now\<rparr> else c)
                          (conversations s2)\<rparr>)
             else s2)"

text \<open>
  \<^verbatim>\<open>sendMessage\<close> after the \<^verbatim>\<open>await\<close>. A rejected request, a response that is not ok
  (\<^verbatim>\<open>API Error: ${res.status} ${res.statusText}\<close>) and a body that is not JSON all end in the
  \<^verbatim>\<open>catch\<close> block; \<^verbatim>\<open>finally\<close> runs in every case.
\<close>

definition sendMessage_finish ::
  "jstring \<Rightarrow> jstring \<Rightarrow> send_ctx \<Rightarrow> chat_response fetch_result \<Rightarrow> app \<Rightarrow> app" where
  "sendMessage_finish rnd now ctx result s =
     sendMessage_finally
       (case result of
          Rejected e \<Rightarrow> sendMessage_catch rnd now e s
        | Response status statusText text parsed \<Rightarrow>
            if \<not> ok status
            then sendMessage_catch rnd now ((js ''API Error: '') @ show_nat status @ (js '' '') @ statusText) s
            else case parsed of
                   Inl e \<Rightarrow> sendMessage_catch rnd now e s
                 | Inr responseData \<Rightarrow> sendMessage_success rnd now ctx responseData s)"

text \<open>
  Each call of \<^verbatim>\<open>setCurrentConversation\<close> with a new object makes the effect on
  \<^verbatim>\<open>[currentConversation]\<close> run after the next render, and the effect starts \<^verbatim>\<open>loadMessages\<close>
  for that object. \<^verbatim>\<open>sendMessage\<close> makes such a call in two places: with the conversation it
  creates when there is none with an id, which is \<open>ctx_newConv\<close>, and in step 6 after a
  successful answer, which is the conversation of the state after that step.
\<close>

definition sendMessage_reload :: "send_ctx \<Rightarrow> chat_response fetch_result \<Rightarrow> app \<Rightarrow> conversation option" where
  "sendMessage_reload ctx result s' =
     (case json_of result of
        None \<Rightarrow> None
      | Some responseData \<Rightarrow>
          (case ctx_conversation ctx of
             None \<Rightarrow> None
           | Some cc \<Rightarrow> if Some (ctx_convId ctx) = conv_id cc then currentConversation s' else None))"

text \<open>
  The handler together with the loads it starts. After the first step the answer of the
  chat request and the answers of the started loads arrive in some order, which is the list
  of events: \<open>Answer\<close> settles the chat request, \<open>Load\<close> settles the oldest load that is under
  way; each carries the random part and the clock for the messages made on its arrival. An
  event that has nothing to settle changes nothing.
\<close>

datatype event =
    Answer jstring jstring "chat_response fetch_result"
  | Load jstring jstring "message list option fetch_result"

record run =
  ui :: app
  waiting :: "send_ctx option"
  loading :: "conversation list"

fun settle :: "event \<Rightarrow> run \<Rightarrow> run" where
  "settle (Answer rnd now result) x =
     (case waiting x of
        None \<Rightarrow> x
      | Some ctx \<Rightarrow>
          (let s' = sendMessage_finish rnd now ctx result (ui x)
           in \<lparr>ui = s', waiting = None,
               loading = loading x @ (case sendMessage_reload ctx result s' of
                                       None \<Rightarrow> [] | Some c \<Rightarrow> [c])\<rparr>))"
| "settle (Load rnd now result) x =
     (case loading x of
        [] \<Rightarrow> x
      | c # cs \<Rightarrow> \<lparr>ui = loadMessages rnd now c result (ui x), waiting = waiting x, loading = cs\<rparr>)"

definition sendMessage :: "jstring \<Rightarrow> jstring \<Rightarrow> jstring \<Rightarrow> event list \<Rightarrow> app \<Rightarrow> app" where
  "sendMessage rnd_msg rnd_conv now events s =
     (case sendMessage_start rnd_msg rnd_conv now s of
        (s1, None) \<Rightarrow> s1
      | (s1, Some ctx) \<Rightarrow>
          ui (foldl (\<lambda>x e. settle e x)
                \<lparr>ui = s1, waiting = Some ctx,
                 loading = (case ctx_newConv ctx of None \<Rightarrow> [] | Some c \<Rightarrow> [c])\<rparr>
                events))"

subsection \<open>Scrolling\<close>

text \<open>
  JavaScript computes in doubles. \<open>double x\<close> is the double nearest to \<open>x\<close>, ties going to the
  even significand: \<open>binade\<close> finds the power of two at or below the magnitude (its first
  argument bounds the search, the exponents of doubles lie between -1074 and 1023), the
  spacing of the doubles there is \<open>2 ^ (e - 52)\<close>, and it stays \<open>2 ^ -1074\<close> below \<open>2 ^ -1022\<close>.
  Sums beyond the largest double are not cut off: compared with a difference of two
  integers they give what the infinite value gives.
\<close>

definition round_even :: "rat \<Rightarrow> int" where
  "round_even x =
     (let f = \<lfloor>x\<rfloor>; d = x - of_int f
      in if d < 1 / 2 then f else if 1 / 2 < d then f + 1 else if even f then f else f + 1)"

function binade :: "nat \<Rightarrow> rat \<Rightarrow> int" where
  "binade fuel y =
     (if fuel = 0 then 0
      else if 2 \<le> y then binade (fuel - 1) (y / 2) + 1
      else if y < 1 then binade (fuel - 1) (2 * y) - 1
      else 0)"
  by pat_completeness auto
termination
  by (relation "measure fst") auto

declare binade.simps [simp del]

definition pow2 :: "int \<Rightarrow> rat" where
  "pow2 e = (if 0 \<le> e then 2 ^ nat e else 1 / 2 ^ nat (- e))"

definition double :: "rat \<Rightarrow> rat" where
  "double x =
     (if x = 0 then 0
      else let e = max (binade 1100 \<bar>x\<bar>) (- 1022);
               ulp = pow2 (e - 52)
           in sgn x * of_int (round_even (\<bar>x\<bar> / ulp)) * ulp)"

text \<open>
  \<^verbatim>\<open>const isAtBottom = element.scrollHeight - element.clientHeight <= element.scrollTop + 10\<close>:
  the difference of the two integers is exact, the sum is rounded.
\<close>

definition isAtBottom :: "scroll_element \<Rightarrow> bool" where
  "isAtBottom element \<longleftrightarrow>
     of_int (scrollHeight element - clientHeight element) \<le> double (scrollTop element + 10)"

definition handleScroll :: "scroll_element \<Rightarrow> app \<Rightarrow> app" where
  "handleScroll element s =
     (if \<not> isAtBottom element then s\<lparr>manualScroll := True\<rparr> else s\<lparr>manualScroll := False\<rparr>)"

text \<open>
  \<^verbatim>\<open>scrollRef\<close> is made by \<^verbatim>\<open>useRef(null)\<close> and handed over as \<^verbatim>\<open><ScrollArea ref={scrollRef}>\<close>.
  \<^verbatim>\<open>ScrollArea\<close> is the file's own
  \<^verbatim>\<open>({ children, className }) => <div className={...}>{children}</div>\<close>, a function component
  that takes \<^verbatim>\<open>children\<close> and \<^verbatim>\<open>className\<close> and does not pass a ref on to its \<^verbatim>\<open>div\<close>. So when
  React has put the \<^verbatim>\<open>div\<close> into the document, \<^verbatim>\<open>scrollRef.current\<close> is what it was before.
\<close>

definition ScrollArea_ref :: "scroll_element \<Rightarrow> scroll_element option \<Rightarrow> scroll_element option" where
  "ScrollArea_ref node current = current"

definition render :: "scroll_element \<Rightarrow> app \<Rightarrow> app" where
  "render node s = s\<lparr>scrollRef := ScrollArea_ref node (scrollRef s)\<rparr>"

text \<open>
  The effect on \<^verbatim>\<open>[messages, isSending, isTyping, manualScroll]\<close>. It returns at once without
  an element; otherwise it calls \<^verbatim>\<open>element.scrollTo({ top: element.scrollHeight })\<close> when the
  condition holds and registers \<^verbatim>\<open>handleScroll\<close>. The result is the \<^verbatim>\<open>top\<close> of the call, if
  it is made, and whether the listener is registered; the state does not change.
\<close>

definition scroll_effect :: "app \<Rightarrow> int option \<times> bool" where
  "scroll_effect s =
     (case scrollRef s of
        None \<Rightarrow> (None, False)
      | Some element \<Rightarrow>
          if \<not> manualScroll s \<or> isSending s \<or> isTyping s
          then (Some (scrollHeight element), True)
          else (None, True))"

text \<open>
  A scroll event of the container \<open>node\<close> reaches \<^verbatim>\<open>handleScroll\<close> only through the listener,
  which reads the container at that moment.
\<close>

definition scroll_event :: "bool \<Rightarrow> scroll_element \<Rightarrow> app \<Rightarrow> app" where
  "scroll_event registered node s = (if registered then handleScroll node s else s)"

subsection \<open>Other handlers that write the list\<close>

text \<open>
  \<^verbatim>\<open>newConversation\<close>; the last of its two \<^verbatim>\<open>setCurrentConversation\<close> calls wins. Its call of
  \<^verbatim>\<open>scrollRef.current.scrollTo\<close> changes no state.
\<close>

definition newConversation :: "jstring \<Rightarrow> jstring \<Rightarrow> app \<Rightarrow> app" where
  "newConversation rnd now s =
     (let newConv = \<lparr>conv_id = Some (uid (js ''conv-'') rnd), title = Some (js ''New Conversation''),
                      created_at = Some now, updated_at = Some now\<rparr>
      in s\<lparr>currentConversation := Some newConv, messages := [], input := [],
            uploadedFile := None, editingId := None,
            conversations := newConv # conversations s, manualScroll := False\<rparr>)"

text \<open>
  \<^verbatim>\<open>deleteConversation\<close> when nothing else happens before the request settles; \<open>confirmed\<close>
  is the answer to the \<^verbatim>\<open>confirm\<close> dialog. The handler removes the conversation whether the
  request succeeds or not.
\<close>

definition deleteConversation ::
  "bool \<Rightarrow> conversation option \<Rightarrow> unit fetch_result \<Rightarrow> app \<Rightarrow> app" where
  "deleteConversation confirmed conversation result s =
     (case conversation of
        None \<Rightarrow> s
      | Some conv \<Rightarrow>
          if \<not> truthy (conv_id conv) \<or> \<not> confirmed then s
          else
            let s1 = s\<lparr>conversations := filter (\<lambda>c. conv_id c \<noteq> conv_id conv) (conversations s)\<rparr>
            in case currentConversation s of
                 None \<Rightarrow> s1
               | Some cur \<Rightarrow>
                   if conv_id cur = conv_id conv
                   then s1\<lparr>currentConversation := None, messages := []\<rparr> else s1)"

text \<open>\<^verbatim>\<open>saveEditedMessage\<close> up to its request, whose outcome changes no state.\<close>

definition saveEditedMessage :: "jstring option \<Rightarrow> jstring \<Rightarrow> jstring \<Rightarrow> app \<Rightarrow> app" where
  "saveEditedMessage mid newContent now s =
     (if \<not> truthy mid \<or> currentConversation s = None then s
      else s\<lparr>messages := map (\<lambda>msg. if msg_id msg = key_of mid
                                    then msg\<lparr>content := newContent, timestamp := now\<rparr> else msg)
                              (messages s),
             editingId := None, editingText := []\<rparr>)"

section \<open>The ThemeToggle component of theme-toggle.jsx\<close>

text \<open>
  The component's state is the theme string. Its initial value is the item saved under
  \<^verbatim>\<open>"theme"\<close> when that is a non-empty string and the system preference otherwise (there is
  a \<^verbatim>\<open>window\<close>, the component runs in the browser); the effect on \<^verbatim>\<open>[theme]\<close> adds or removes
  the class and saves the theme; a click flips it. Neither the initial value nor the effect
  guards its access to the storage, so what the storage throws ends the component.
\<close>

definition ThemeToggle_init :: "bool \<Rightarrow> browser \<Rightarrow> js_error + jstring" where
  "ThemeToggle_init prefers_dark b =
     (if storage b = Blocked then Inl StorageError
      else Inr (case ls_toggle_theme b of
                  None \<Rightarrow> (if prefers_dark then (js ''dark'') else (js ''light''))
                | Some saved \<Rightarrow>
                    if saved \<noteq> [] then saved
                    else (if prefers_dark then (js ''dark'') else (js ''light''))))"

definition ThemeToggle_effect :: "jstring \<Rightarrow> browser \<Rightarrow> js_error + browser" where
  "ThemeToggle_effect t b =
     (if storage b = Available
      then Inr (b\<lparr>dark_class := (t = (js ''dark'')), ls_toggle_theme := Some t\<rparr>)
      else Inl StorageError)"

definition ThemeToggle_mount :: "bool \<Rightarrow> browser \<Rightarrow> js_error + (jstring \<times> browser)" where
  "ThemeToggle_mount prefers_dark b =
     (case ThemeToggle_init prefers_dark b of
        Inl e \<Rightarrow> Inl e
      | Inr t \<Rightarrow> (case ThemeToggle_effect t b of Inl e \<Rightarrow> Inl e | Inr b' \<Rightarrow> Inr (t, b')))"

definition ThemeToggle_click :: "jstring \<times> browser \<Rightarrow> js_error + (jstring \<times> browser)" where
  "ThemeToggle_click tb =
     (let t = (if fst tb = (js ''dark'') then (js ''light'') else (js ''dark''))
      in case ThemeToggle_effect t (snd tb) of Inl e \<Rightarrow> Inl e | Inr b' \<Rightarrow> Inr (t, b'))"

definition ThemeToggle_reload :: "bool \<Rightarrow> jstring \<times> browser \<Rightarrow> js_error + (jstring \<times> browser)" where
  "ThemeToggle_reload prefers_dark tb = ThemeToggle_mount prefers_dark ((snd tb)\<lparr>dark_class := False\<rparr>)"

section \<open>The older variant of the chat component\<close>

text \<open>
  The older variant has a theme of its own: the state starts from
  \<^verbatim>\<open>localStorage.getItem("rockbot_theme") || "dark"\<close>, and \<^verbatim>\<open>"dark"\<close> when that throws; the effect
  on \<^verbatim>\<open>[theme]\<close> sets the class and stores the theme, ignoring what \<^verbatim>\<open>setItem\<close> throws; its
  button flips the theme.
\<close>

definition theme_init_p2 :: "browser \<Rightarrow> jstring" where
  "theme_init_p2 b =
     (if storage b = Blocked then (js ''dark'') else or_else (ls_theme_p2 b) (js ''dark''))"

definition theme_effect_p2 :: "jstring \<Rightarrow> browser \<Rightarrow> browser" where
  "theme_effect_p2 t b =
     (let b1 = b\<lparr>dark_class := (t = (js ''dark''))\<rparr>
      in if storage b = Available then b1\<lparr>ls_theme_p2 := Some t\<rparr> else b1)"

text \<open>
  Its header also renders \<^verbatim>\<open><ThemeToggle />\<close>. The state of the two is the theme of the
  variant, the theme of \<^verbatim>\<open>ThemeToggle\<close> and the page. On mount the effect of the child runs
  before the effect of the parent; running both a second time, as a development build does
  under \<^verbatim>\<open>React.StrictMode\<close>, gives the same page.
\<close>

definition mount_themes_p2 :: "bool \<Rightarrow> browser \<Rightarrow> js_error + (jstring \<times> jstring \<times> browser)" where
  "mount_themes_p2 prefers_dark b =
     (let t = theme_init_p2 b
      in case ThemeToggle_mount prefers_dark b of
           Inl e \<Rightarrow> Inl e
         | Inr (tt, b1) \<Rightarrow> Inr (t, tt, theme_effect_p2 t b1))"

definition toggleTheme_p2 :: "jstring \<times> jstring \<times> browser \<Rightarrow> jstring \<times> jstring \<times> browser" where
  "toggleTheme_p2 x =
     (case x of (t, tt, b) \<Rightarrow>
        (let t' = (if t = (js ''dark'') then (js ''light'') else (js ''dark''))
         in (t', tt, theme_effect_p2 t' b)))"

definition ThemeToggle_click_p2 ::
  "jstring \<times> jstring \<times> browser \<Rightarrow> js_error + (jstring \<times> jstring \<times> browser)" where
  "ThemeToggle_click_p2 x =
     (case x of (t, tt, b) \<Rightarrow>
        (case ThemeToggle_click (tt, b) of Inl e \<Rightarrow> Inl e | Inr (tt', b') \<Rightarrow> Inr (t, tt', b')))"

definition reload_themes_p2 ::
  "bool \<Rightarrow> jstring \<times> jstring \<times> browser \<Rightarrow> js_error + (jstring \<times> jstring \<times> browser)" where
  "reload_themes_p2 prefers_dark x =
     (case x of (t, tt, b) \<Rightarrow> mount_themes_p2 prefers_dark (b\<lparr>dark_class := False\<rparr>))"

record app_p2 =
  conversations_p2 :: "conversation list"
  currentConversation_p2 :: "conversation option"
  messages_p2 :: "message list"
  inputMessage :: jstring
  isLoading :: bool
  isTyping_p2 :: bool
  editingId_p2 :: "jstring option"
  editingText_p2 :: jstring
  selectedAgent_p2 :: jstring

text \<open>
  \<^verbatim>\<open>loadConversation(id)\<close> once the request has settled: the parsed body gives
  \<^verbatim>\<open>json.conversation\<close> and \<^verbatim>\<open>json.messages\<close>; every failure is logged and changes nothing.
\<close>

definition loadConversation_p2 ::
  "jstring option \<Rightarrow> (conversation option \<times> message list option) fetch_result \<Rightarrow> app_p2 \<Rightarrow> app_p2" where
  "loadConversation_p2 cid result s =
     (case result of
        Rejected e \<Rightarrow> s
      | Response status statusText text parsed \<Rightarrow>
          if \<not> ok status then s
          else case parsed of
                 Inl e \<Rightarrow> s
               | Inr json \<Rightarrow>
                   s\<lparr>currentConversation_p2 :=
                        Some (case fst json of
                                None \<Rightarrow> \<lparr>conv_id = cid, title = None, created_at = None, updated_at = None\<rparr>
                              | Some c \<Rightarrow> c),
                     messages_p2 := (case snd json of None \<Rightarrow> [] | Some ms \<Rightarrow> ms)\<rparr>)"

text \<open>
  The effect on \<^verbatim>\<open>[currentConversation?.id]\<close>: it starts \<^verbatim>\<open>loadConversation\<close> for a truthy id
  and empties the list otherwise.
\<close>

definition currentConversation_effect_p2 :: "app_p2 \<Rightarrow> app_p2 \<times> jstring option" where
  "currentConversation_effect_p2 s =
     (let cid = (case currentConversation_p2 s of None \<Rightarrow> None | Some c \<Rightarrow> conv_id c)
      in if truthy cid then (s, cid) else (s\<lparr>messages_p2 := []\<rparr>, None))"

definition selectConversation_p2 :: "conversation \<Rightarrow> app_p2 \<Rightarrow> app_p2" where
  "selectConversation_p2 c s = s\<lparr>currentConversation_p2 := Some c\<rparr>"

text \<open>
  \<^verbatim>\<open>loadConversations()\<close> once settled; the parsed body is the array, \<open>None\<close> when it is not
  one. \<open>closure\<close> is the \<^verbatim>\<open>currentConversation\<close> of the render that made the function.
\<close>

definition loadConversations_p2 ::
  "conversation option \<Rightarrow> conversation list option fetch_result \<Rightarrow> app_p2 \<Rightarrow> app_p2" where
  "loadConversations_p2 closure result s =
     (case result of
        Rejected e \<Rightarrow> s
      | Response status statusText text parsed \<Rightarrow>
          if \<not> ok status then s
          else case parsed of
                 Inl e \<Rightarrow> s
               | Inr None \<Rightarrow> s\<lparr>conversations_p2 := []\<rparr>
               | Inr (Some cs) \<Rightarrow>
                   (let s1 = s\<lparr>conversations_p2 := cs\<rparr>
                    in case (closure, cs) of
                         (None, c0 # _) \<Rightarrow> s1\<lparr>currentConversation_p2 := Some c0\<rparr>
                       | _ \<Rightarrow> s1))"



definition chat_body_p2 :: "jstring \<Rightarrow> conversation option \<Rightarrow> jstring \<Rightarrow> upload option \<Rightarrow> body" where
  "chat_body_p2 msg_content conv agent filePayload =
     [((js ''message''), JStr msg_content),
      ((js ''conversation_id''), jstr_opt (case conv of None \<Rightarrow> None | Some c \<Rightarrow> conv_id c)),
      ((js ''agent_type''), JStr agent)]
     @ (case filePayload of
          None \<Rightarrow> []
        | Some fp \<Rightarrow> (case data fp of None \<Rightarrow> [] | Some d \<Rightarrow> [((js ''file''), JRaw d)]))"



text \<open>The server id the older variant takes from the answer: \<^verbatim>\<open>json?.user_message?.id || json?.user_message_id\<close>.\<close>

definition server_id_p2 :: "chat_response \<Rightarrow> jstring option" where
  "server_id_p2 json =
     or_opt (case user_message json of None \<Rightarrow> None | Some um \<Rightarrow> Some (msg_id um)) (user_message_id json)"

text \<open>
  \<^verbatim>\<open>prev.map((m) => (m.id === tmpId ? { ...m, sending: false,\<close>
  \<^verbatim>\<open>  id: json?.user_message?.id || json?.user_message_id || m.id } : m))\<close>
\<close>

definition reconcile_p2 :: "jstring \<Rightarrow> chat_response \<Rightarrow> message list \<Rightarrow> message list" where
  "reconcile_p2 tmpId json ms =
     map (\<lambda>m. if msg_id m = tmpId
              then m\<lparr>sending := Some False,
                     msg_id := or_else (or_opt (case user_message json of None \<Rightarrow> None
                                                | Some um \<Rightarrow> Some (msg_id um))
                                               (user_message_id json))
                                       (msg_id m)\<rparr>
              else m) ms"

text \<open>The assistant message made from one entry of \<^verbatim>\<open>ai_response\<close>.\<close>

definition ai_message :: "jstring \<Rightarrow> jstring \<Rightarrow> ai_item \<Rightarrow> message" where
  "ai_message rnd now r =
     (case r of
        AiString txt \<Rightarrow>
          \<lparr>msg_id = uid (js ''ai-'') rnd, role = (js ''assistant''), content = txt, timestamp = now,
           msg_file = None, sending = None, likes = Some 0, dislikes = Some 0\<rparr>
      | AiObject obj \<Rightarrow>
          \<lparr>msg_id = or_else (ai_id obj) (uid (js ''ai-'') rnd), role = (js ''assistant''),
           content = or_else (ai_content obj) (or_else (ai_text obj) (take 300 (ai_json obj))),
           timestamp = or_else (ai_timestamp obj) now,
           msg_file = None, sending = None,
           likes = Some (case ai_likes obj of None \<Rightarrow> 0 | Some n \<Rightarrow> n),
           dislikes = Some (case ai_dislikes obj of None \<Rightarrow> 0 | Some n \<Rightarrow> n)\<rparr>)"

text \<open>
  The assistant messages a parsed answer gives: one per entry of a truthy \<^verbatim>\<open>ai_response\<close>
  (the empty string is falsy, every array and object is truthy), each with its own random
  id part \<open>rnds i\<close>; otherwise the single message made of \<^verbatim>\<open>json?.response || "No response."\<close>.
\<close>

definition ai_messages :: "(nat \<Rightarrow> jstring) \<Rightarrow> jstring \<Rightarrow> chat_response \<Rightarrow> message list" where
  "ai_messages rnds now json =
     (let fallback = [\<lparr>msg_id = uid (js ''ai-'') (rnds 0), role = (js ''assistant''),
                       content = or_else (response json) (js ''No response.''), timestamp = now,
                       msg_file = None, sending = None, likes = Some 0, dislikes = Some 0\<rparr>]
      in case ai_response json of
           None \<Rightarrow> fallback
         | Some (AiOne (AiString txt)) \<Rightarrow>
             if txt = [] then fallback else [ai_message (rnds 0) now (AiString txt)]
         | Some (AiOne (AiObject obj)) \<Rightarrow> [ai_message (rnds 0) now (AiObject obj)]
         | Some (AiArray aiList) \<Rightarrow>
             map (\<lambda>ir. ai_message (rnds (fst ir)) now (snd ir)) (enumerate 0 aiList))"





definition typing_timeout_p2 :: "app_p2 \<Rightarrow> app_p2" where
  "typing_timeout_p2 s = s\<lparr>isTyping_p2 := False\<rparr>"







section \<open>Outcomes of a request and concrete inputs\<close>

text \<open>The message the handlers find in the error they catch after a failed chat request.\<close>

definition error_text :: "'a fetch_result \<Rightarrow> jstring" where
  "error_text result =
     (case result of
        Rejected e \<Rightarrow> e
      | Response status statusText text parsed \<Rightarrow> (js ''API Error: '') @ show_nat status @ (js '' '') @ statusText)"


text \<open>Concrete values for the examples that follow the theorems.\<close>

definition example_browser :: browser where
  "example_browser =
     \<lparr>storage = Available, ls_deleted = Some (Parsed [((js ''c1''), [(js ''m0'')])]),
      ls_theme = None, ls_theme_p2 = None, ls_toggle_theme = None, dark_class = False\<rparr>"

text \<open>The same browser with a storage that takes no more writes.\<close>

definition full_browser :: browser where
  "full_browser = example_browser\<lparr>storage := Full\<rparr>"

text \<open>The component mounted in that browser: the theme effect has stored the theme.\<close>

definition example_mounted :: app where
  "example_mounted = (initial_state example_browser)\<lparr>page := example_browser\<lparr>ls_theme := Some (js ''light'')\<rparr>\<rparr>"

definition example_conversation :: conversation where
  "example_conversation =
     \<lparr>conv_id = Some (js ''c1''), title = Some (js ''First''), created_at = None, updated_at = None\<rparr>"

definition other_conversation :: conversation where
  "other_conversation =
     \<lparr>conv_id = Some (js ''c2''), title = Some (js ''Second''), created_at = None, updated_at = None\<rparr>"

definition user_msg :: "jstring \<Rightarrow> jstring \<Rightarrow> message" where
  "user_msg i txt =
     \<lparr>msg_id = i, role = (js ''user''), content = txt, timestamp = (js ''2025-01-01T00:00:00.000Z''),
      msg_file = None, sending = None, likes = None, dislikes = None\<rparr>"

definition example_state :: app where
  "example_state =
     (initial_state example_browser)
       \<lparr>conversations := [example_conversation, other_conversation],
        currentConversation := Some example_conversation,
        messages := [user_msg (js ''m1'') (js ''hello''), user_msg (js ''m2'') (js ''again'')],
        input := (js '' hi there '')\<rparr>"

definition not_found :: "'a fetch_result" where
  "not_found = Response 404 (js ''Not Found'') (js ''missing'') (Inl (js ''Unexpected token''))"


definition example_state_p2 :: app_p2 where
  "example_state_p2 =
     \<lparr>conversations_p2 = [example_conversation, other_conversation],
      currentConversation_p2 = Some example_conversation,
      messages_p2 = [user_msg (js ''m1'') (js ''hello'')],
      inputMessage = (js ''hi''), isLoading = False, isTyping_p2 = False,
      editingId_p2 = None, editingText_p2 = [], selectedAgent_p2 = (js ''general'')\<rparr>"

definition tmp_message :: message where
  "tmp_message =
     \<lparr>msg_id = (js ''tmp-abc1234''), role = (js ''user''), content = (js ''hi''),
      timestamp = (js ''2025-01-01T00:00:00.000Z''), msg_file = None,
      sending = Some True, likes = Some 0, dislikes = Some 0\<rparr>"

definition example_response :: chat_response where
  "example_response =
     \<lparr>response = None, user_msg_id = None, assistant_msg_id = None, conversation_title = None,
      ai_response = Some (AiOne (AiString (js ''Hello!''))), user_message = None,
      user_message_id = Some (js ''42''), conversation_id = Some (js ''c1'')\<rparr>"

text \<open>
  A scroll container 500 pixels above its bottom, and one whose position is so close below a
  double that adding 10 rounds up.
\<close>

definition far_element :: scroll_element where
  "far_element = \<lparr>scrollHeight = 1000, clientHeight = 400, scrollTop = 100\<rparr>"

definition near_element :: scroll_element where
  "near_element = \<lparr>scrollHeight = 920, clientHeight = 400, scrollTop = 510 - 1 / 2 ^ 44\<rparr>"

definition example_now :: jstring where
  "example_now = (js ''2025-01-01T00:00:01.000Z'')"




definition ok_chat :: "chat_response fetch_result" where
  "ok_chat = Response 200 (js ''OK'') (js ''{...}'') (Inr example_response)"

definition ok_messages :: "message list option fetch_result" where
  "ok_messages = Response 200 (js ''OK'') (js ''{...}'') (Inr (Some [user_msg (js ''m0'') (js ''old''), user_msg (js ''m3'') (js ''new'')]))"

definition ok_conversation :: "(conversation option \<times> message list option) fetch_result" where
  "ok_conversation =
     Response 200 (js ''OK'') (js ''{...}'') (Inr (Some other_conversation, Some [user_msg (js ''m7'') (js ''other'')]))"

definition ok_one_message :: "message list option fetch_result" where
  "ok_one_message = Response 200 (js ''OK'') (js ''{...}'') (Inr (Some [user_msg (js ''m1'') (js ''hello'')]))"

text \<open>The state \<open>example_state\<close> in a page whose storage takes no more writes.\<close>

definition full_state :: app where
  "full_state = example_state\<lparr>page := full_browser\<rparr>"

text \<open>
  A state without a current conversation that still shows a message: the first conversation
  is selected, it is deleted while the request for its messages is under way, the effect
  empties the list, and then the request settles and \<^verbatim>\<open>loadMessages\<close> writes what it fetched.
\<close>

definition stale_state :: app where
  "stale_state =
     loadMessages (js ''abc1234'') example_now example_conversation ok_one_message
       (fst (currentConversation_effect
          (deleteConversation True (Some example_conversation) (Response 200 (js ''OK'') [] (Inr ()))
             (selectConversation example_conversation example_mounted))))"

text \<open>
  A state that shows a message recorded for the current conversation. The first
  conversation is selected and its message \<^verbatim>\<open>m1\<close> is loaded; the second conversation is
  selected, and before its messages arrive the user deletes \<^verbatim>\<open>m1\<close>, which is still shown, and
  the request fails, so the id stays recorded under the second conversation. The messages of
  the second conversation arrive; the first conversation is selected again and its messages
  are loaded; then the second conversation is selected once more.
\<close>

definition ok_other_messages :: "message list option fetch_result" where
  "ok_other_messages = Response 200 (js ''OK'') (js ''{...}'') (Inr (Some [user_msg (js ''m7'') (js ''other'')]))"

definition switched_state :: app where
  "switched_state =
     selectConversation other_conversation
       (loadMessages (js ''abc1234'') example_now example_conversation ok_one_message
          (selectConversation example_conversation
             (loadMessages (js ''abc1234'') example_now other_conversation ok_other_messages
                (deleteMessage (user_msg (js ''m1'') (js ''hello'')) not_found
                   (selectConversation other_conversation
                      (loadMessages (js ''abc1234'') example_now example_conversation ok_one_message
                         (selectConversation example_conversation example_mounted)))))))"



text \<open>An answer of the chat endpoint whose \<^verbatim>\<open>ai_response\<close> is the empty array.\<close>

definition empty_reply :: "chat_response fetch_result" where
  "empty_reply =
     Response 200 (js ''OK'') (js ''{...}'')
       (Inr \<lparr>response = None, user_msg_id = None, assistant_msg_id = None,
              conversation_title = None, ai_response = Some (AiArray []), user_message = None,
              user_message_id = Some (js ''42''), conversation_id = Some (js ''c1'')\<rparr>)"



definition fresh_conversation :: conversation where
  "fresh_conversation =
     \<lparr>conv_id = Some (js ''conv-def5678''), title = Some (js ''hi''),
      created_at = Some example_now, updated_at = Some example_now\<rparr>"


definition fresh_ctx :: send_ctx where
  "fresh_ctx =
     \<lparr>ctx_tempMsgId = (js ''msg-temp-abc1234''), ctx_convId = (js ''conv-def5678''),
      ctx_conversation = None, ctx_newConv = Some fresh_conversation,
      ctx_request = Request (js ''POST'') (js ''/chat'')
        (Some (chat_payload (js ''conv-def5678'') (js ''general'') (js ''hi'') None))\<rparr>"

text \<open>The mounted component after a click on its theme button.\<close>

definition dark_state :: app where
  "dark_state =
     example_mounted
       \<lparr>theme := js ''dark'',
        page := example_browser\<lparr>ls_theme := Some (js ''dark''), dark_class := True\<rparr>\<rparr>"

text \<open>
  The older variant in the same browser, on a system that prefers the dark colour scheme:
  the page after mounting, and the page after a click on the \<^verbatim>\<open>ThemeToggle\<close> in its header.
\<close>

definition older_page :: browser where
  "older_page =
     example_browser
       \<lparr>ls_theme_p2 := Some (js ''dark''), ls_toggle_theme := Some (js ''dark''), dark_class := True\<rparr>"

definition older_page_toggled :: browser where
  "older_page_toggled =
     example_browser
       \<lparr>ls_theme_p2 := Some (js ''dark''), ls_toggle_theme := Some (js ''light''), dark_class := False\<rparr>"

text \<open>
  The mounted component after the first conversation has been selected, its messages have
  arrived, and React has put the scroll container, 500 pixels above its bottom, into the
  document.
\<close>

definition shown_state :: app where
  "shown_state =
     render far_element
       (loadMessages (js ''abc1234'') example_now example_conversation ok_one_message
          (selectConversation example_conversation example_mounted))"

section \<open>Texts of this file as JavaScript strings\<close>

lemma js_eq [simp]: "js a = js b \<longleftrightarrow> a = b"
proof -
  have "inj (of_char :: char \<Rightarrow> nat)"
    by (rule injI) simp
  then show ?thesis
    by (simp add: js_def inj_map_eq_map)
qed

lemma js_Nil [simp]: "js [] = []"
  by (simp add: js_def)

lemma js_eq_Nil [simp]: "js a = [] \<longleftrightarrow> a = []" "[] = js a \<longleftrightarrow> a = []"
  by (auto simp: js_def)

lemma js_append [simp]: "js a @ js b = js (a @ b)" "js a @ js b @ x = js (a @ b) @ x"
  by (simp_all add: js_def)

lemma length_js [simp]: "length (js a) = length a"
  by (simp add: js_def)

section \<open>Properties of the deleted-ids map\<close>

lemma readDeletedMap_write [simp]:
  "storage b = Available \<Longrightarrow> readDeletedMap (writeDeletedMap m b) = m"
  by (simp add: readDeletedMap_def writeDeletedMap_def)

lemma storage_write [simp]: "storage (writeDeletedMap m b) = storage b"
  by (simp add: writeDeletedMap_def)

lemma write_unavailable [simp]: "storage b \<noteq> Available \<Longrightarrow> writeDeletedMap m b = b"
  by (simp add: writeDeletedMap_def)

lemma property_of_update [simp]: "property_of (AList.update k xs al) k = Array xs"
  by (simp add: property_of_def update_conv')

lemma property_of_update_other [simp]:
  "k' \<noteq> k \<Longrightarrow> property_of (AList.update k xs al) k' = property_of al k'"
  by (simp add: property_of_def update_conv')

lemma isMessageLocallyDeleted_map_of:
  "isMessageLocallyDeleted b c m \<longleftrightarrow>
     (case map_of (readDeletedMap b) c of None \<Rightarrow> False | Some xs \<Rightarrow> m \<in> set xs)"
  by (simp add: isMessageLocallyDeleted_def property_of_def split: option.splits)

lemma isMessageLocallyDeleted_stored_ids:
  "isMessageLocallyDeleted b c m \<longleftrightarrow> m \<in> set (stored_ids b c)"
  by (simp add: isMessageLocallyDeleted_def stored_ids_def property_of_def split: option.splits)

lemma ids_distinct_update:
  "list_all (\<lambda>kv. distinct (snd kv)) al \<Longrightarrow> distinct xs \<Longrightarrow>
     list_all (\<lambda>kv. distinct (snd kv)) (AList.update k xs al)"
  by (induction al) auto

lemma ids_distinct_lookup:
  "list_all (\<lambda>kv. distinct (snd kv)) al \<Longrightarrow> map_of al k = Some xs \<Longrightarrow> distinct xs"
  by (induction al) (auto split: if_splits)

text \<open>
  Marking writes when the storage is available and the key is not one the object only
  inherits; then the list of the conversation gets the id at its end unless it has it.
\<close>

lemma mark_records:
  assumes "storage b = Available" "property_of (readDeletedMap b) c \<noteq> Inherited"
  shows "\<exists>b1. markMessageDeletedLocally c m b = Inr b1
            \<and> storage b1 = Available
            \<and> stored_ids b1 c = (if m \<in> set (stored_ids b c) then stored_ids b c else stored_ids b c @ [m])
            \<and> (\<forall>c'. c' \<noteq> c \<longrightarrow> property_of (readDeletedMap b1) c' = property_of (readDeletedMap b) c')
            \<and> property_of (readDeletedMap b1) c \<noteq> Inherited
            \<and> (ids_distinct b \<longrightarrow> ids_distinct b1)
            \<and> ls_theme b1 = ls_theme b \<and> dark_class b1 = dark_class b"
proof (cases "map_of (readDeletedMap b) c")
  case None
  with assms(2) have u: "property_of (readDeletedMap b) c = Undefined"
    by (simp add: property_of_def split: if_splits)
  have d: "ids_distinct (writeDeletedMap (AList.update c [m] (readDeletedMap b)) b)" if "ids_distinct b"
    using that assms(1) unfolding ids_distinct_def
    by (simp add: ids_distinct_update)
  show ?thesis
    using assms(1) None u d
    by (simp add: markMessageDeletedLocally_def Let_def stored_ids_def update_conv'
          writeDeletedMap_def readDeletedMap_def)
next
  case (Some xs)
  then have a: "property_of (readDeletedMap b) c = Array xs"
    by (simp add: property_of_def)
  have d: "ids_distinct (writeDeletedMap (AList.update c (xs @ [m]) (readDeletedMap b)) b)"
    if "ids_distinct b" "m \<notin> set xs"
  proof -
    have "distinct xs"
      using that(1) Some unfolding ids_distinct_def by (rule ids_distinct_lookup)
    then show ?thesis
      using that assms(1) unfolding ids_distinct_def
      by (simp add: ids_distinct_update)
  qed
  show ?thesis
  proof (cases "m \<in> set xs")
    case True
    have "ids_distinct (writeDeletedMap (readDeletedMap b) b)" if "ids_distinct b"
      using that assms(1) by (simp add: ids_distinct_def)
    then show ?thesis
      using assms(1) Some a True
      by (simp add: markMessageDeletedLocally_def Let_def stored_ids_def)
         (simp add: writeDeletedMap_def)
  next
    case False
    then show ?thesis
      using assms(1) Some a d
      by (simp add: markMessageDeletedLocally_def Let_def stored_ids_def update_conv')
         (simp add: writeDeletedMap_def)
  qed
qed

lemma remove_records:
  assumes "storage b = Available" "property_of (readDeletedMap b) c \<noteq> Inherited"
  shows "\<exists>b2. removeLocalDeletedMark c m b = Inr b2
            \<and> storage b2 = Available
            \<and> stored_ids b2 c = filter (\<lambda>i. i \<noteq> m) (stored_ids b c)
            \<and> (\<forall>c'. c' \<noteq> c \<longrightarrow> property_of (readDeletedMap b2) c' = property_of (readDeletedMap b) c')
            \<and> (ids_distinct b \<longrightarrow> ids_distinct b2)"
proof (cases "map_of (readDeletedMap b) c")
  case None
  with assms(2) have u: "property_of (readDeletedMap b) c = Undefined"
    by (simp add: property_of_def split: if_splits)
  show ?thesis
    using assms(1) None u by (simp add: removeLocalDeletedMark_def Let_def stored_ids_def)
next
  case (Some xs)
  then have a: "property_of (readDeletedMap b) c = Array xs"
    by (simp add: property_of_def)
  have d: "ids_distinct (writeDeletedMap (AList.update c (filter (\<lambda>i. i \<noteq> m) xs) (readDeletedMap b)) b)"
    if "ids_distinct b"
  proof -
    have "distinct xs"
      using that Some unfolding ids_distinct_def by (rule ids_distinct_lookup)
    then show ?thesis
      using that assms(1) unfolding ids_distinct_def
      by (simp add: ids_distinct_update)
  qed
  show ?thesis
    using assms(1) Some a d
    by (simp add: removeLocalDeletedMark_def Let_def stored_ids_def update_conv')
qed

text \<open>
  Whatever the storage and the key, the two writers take nothing for another key away, add
  nothing but the one id, and keep the lists free of duplicates.
\<close>

lemma mark_deleted_only:
  "markMessageDeletedLocally c m b = Inr b1 \<Longrightarrow> isMessageLocallyDeleted b1 k i \<Longrightarrow>
     isMessageLocallyDeleted b k i \<or> (k = c \<and> i = m)"
  by (auto simp: markMessageDeletedLocally_def Let_def isMessageLocallyDeleted_def
        writeDeletedMap_def readDeletedMap_def property_of_def update_conv'
      split: property.splits option.splits if_splits)

lemma remove_deleted_only:
  "removeLocalDeletedMark c m b = Inr b2 \<Longrightarrow> isMessageLocallyDeleted b2 k i \<Longrightarrow>
     isMessageLocallyDeleted b k i"
  by (auto simp: removeLocalDeletedMark_def Let_def isMessageLocallyDeleted_def
        writeDeletedMap_def readDeletedMap_def property_of_def update_conv'
      split: property.splits option.splits if_splits)

lemma count_list_one: "distinct xs \<Longrightarrow> x \<in> set xs \<Longrightarrow> count_list xs x = 1"
  by (induction xs) auto

lemma stored_ids_distinct: "ids_distinct b \<Longrightarrow> distinct (stored_ids b c)"
  by (auto simp: ids_distinct_def stored_ids_def split: option.splits
           dest: ids_distinct_lookup)

lemma ids_distinct_missing: "ls_deleted b = None \<Longrightarrow> ids_distinct b"
  by (simp add: ids_distinct_def readDeletedMap_def)

lemma ids_distinct_unparseable: "ls_deleted b = Some Unparseable \<Longrightarrow> ids_distinct b"
  by (simp add: ids_distinct_def readDeletedMap_def)

text \<open>
  C10, as stated, fails. When the storage takes no write, \<^verbatim>\<open>writeDeletedMap\<close> swallows what
  \<^verbatim>\<open>setItem\<close> throws and the pair is not reported as deleted after it has been marked. For
  a conversation id that names a property every object inherits, \<^verbatim>\<open>markMessageDeletedLocally\<close>
  throws, and the pair is not reported either.
\<close>

theorem mark_without_record_counterexample:
  "markMessageDeletedLocally (js ''c1'') (js ''m1'') full_browser = Inr full_browser
   \<and> \<not> isMessageLocallyDeleted full_browser (js ''c1'') (js ''m1'')
   \<and> markMessageDeletedLocally (js ''constructor'') (js ''m1'') example_browser = Inl TypeError
   \<and> \<not> isMessageLocallyDeleted example_browser (js ''constructor'') (js ''m1'')"
  by (simp add: markMessageDeletedLocally_def isMessageLocallyDeleted_def Let_def
        full_browser_def example_browser_def readDeletedMap_def writeDeletedMap_def
        property_of_def inherited_def)

text \<open>
  C10, amended. While the storage is available, and for a conversation id under which the
  stored object has an array or has and inherits nothing: marking succeeds and marking again
  changes nothing; on a store whose lists are free of duplicates (the empty store is, and
  both writers keep it so) the list of the conversation then holds the id exactly once; the
  marked id is reported as deleted, and is no longer reported once the mark has been
  removed.
\<close>

theorem deleted_map_operations:
  "storage b = Available \<and> property_of (readDeletedMap b) c \<noteq> Inherited \<longrightarrow>
     (\<exists>b1. markMessageDeletedLocally c m b = Inr b1
          \<and> markMessageDeletedLocally c m b1 = Inr b1
          \<and> (ids_distinct b \<longrightarrow> count_list (stored_ids b1 c) m = 1)
          \<and> isMessageLocallyDeleted b1 c m
          \<and> (\<exists>b2. removeLocalDeletedMark c m b1 = Inr b2 \<and> \<not> isMessageLocallyDeleted b2 c m))"
proof (rule impI, elim conjE)
  assume av: "storage b = Available" and ni: "property_of (readDeletedMap b) c \<noteq> Inherited"
  from mark_records [OF av ni, of m] obtain b1 where
    1: "markMessageDeletedLocally c m b = Inr b1" "storage b1 = Available"
       "stored_ids b1 c = (if m \<in> set (stored_ids b c) then stored_ids b c else stored_ids b c @ [m])"
       "property_of (readDeletedMap b1) c \<noteq> Inherited" "ids_distinct b \<longrightarrow> ids_distinct b1"
    by blast
  have in1: "m \<in> set (stored_ids b1 c)"
    by (simp add: 1(3))
  have twice: "markMessageDeletedLocally c m b1 = Inr b1"
  proof -
    from in1 obtain xs where xs: "map_of (readDeletedMap b1) c = Some xs" "m \<in> set xs"
      by (cases "map_of (readDeletedMap b1) c") (simp_all add: stored_ids_def)
    have same: "b1 = b1\<lparr>ls_deleted := Some (Parsed (readDeletedMap b1))\<rparr>"
      using 1(1) av
      by (auto simp: markMessageDeletedLocally_def Let_def writeDeletedMap_def readDeletedMap_def
            split: property.splits if_splits)
    have "markMessageDeletedLocally c m b1 = Inr (writeDeletedMap (readDeletedMap b1) b1)"
      using xs by (simp add: markMessageDeletedLocally_def Let_def property_of_def)
    also have "writeDeletedMap (readDeletedMap b1) b1 = b1"
      using same 1(2) by (simp add: writeDeletedMap_def)
    finally show ?thesis .
  qed
  have once: "count_list (stored_ids b1 c) m = 1" if "ids_distinct b"
    using that 1(5) in1 by (simp add: stored_ids_distinct count_list_one)
  from remove_records [OF 1(2) 1(4), of m] obtain b2 where
    2: "removeLocalDeletedMark c m b1 = Inr b2"
       "stored_ids b2 c = filter (\<lambda>i. i \<noteq> m) (stored_ids b1 c)"
    by blast
  have gone: "\<not> isMessageLocallyDeleted b2 c m"
    by (simp add: isMessageLocallyDeleted_stored_ids 2(2))
  show "\<exists>b1. markMessageDeletedLocally c m b = Inr b1
          \<and> markMessageDeletedLocally c m b1 = Inr b1
          \<and> (ids_distinct b \<longrightarrow> count_list (stored_ids b1 c) m = 1)
          \<and> isMessageLocallyDeleted b1 c m
          \<and> (\<exists>b2. removeLocalDeletedMark c m b1 = Inr b2 \<and> \<not> isMessageLocallyDeleted b2 c m)"
    using 1(1) twice once in1 2(1) gone
    by (auto simp: isMessageLocallyDeleted_stored_ids)
qed

theorem deleted_map_operations_witness:
  "storage example_browser = Available
   \<and> property_of (readDeletedMap example_browser) (js ''c1'') \<noteq> Inherited
   \<and> ids_distinct example_browser
   \<and> (\<exists>b1. markMessageDeletedLocally (js ''c1'') (js ''m1'') example_browser = Inr b1
          \<and> markMessageDeletedLocally (js ''c1'') (js ''m1'') b1 = Inr b1
          \<and> count_list (stored_ids b1 (js ''c1'')) (js ''m1'') = 1
          \<and> isMessageLocallyDeleted b1 (js ''c1'') (js ''m1'')
          \<and> (\<exists>b2. removeLocalDeletedMark (js ''c1'') (js ''m1'') b1 = Inr b2
                 \<and> \<not> isMessageLocallyDeleted b2 (js ''c1'') (js ''m1'')))"
proof -
  have a: "storage example_browser = Available"
    by (simp add: example_browser_def)
  have n: "property_of (readDeletedMap example_browser) (js ''c1'') \<noteq> Inherited"
    by (simp add: example_browser_def readDeletedMap_def property_of_def)
  have d: "ids_distinct example_browser"
    by (simp add: ids_distinct_def example_browser_def readDeletedMap_def)
  from deleted_map_operations [where b = example_browser and c = "js ''c1''" and m = "js ''m1''"] a n d
  show ?thesis
    by simp
qed

section \<open>Deleting a message and reloading\<close>

text \<open>
  With an available storage the component mounts in either build, and mounting leaves the
  stored map as it is.
\<close>

lemma mount_available:
  assumes "storage b = Available"
  shows "\<exists>s. mount bld b = Inr s \<and> storage (page s) = Available
            \<and> ls_deleted (page s) = ls_deleted b \<and> readDeletedMap (page s) = readDeletedMap b
            \<and> currentConversation s = None \<and> messages s = [] \<and> scrollRef s = None"
  using assms
  by (cases bld)
     (simp_all add: mount_def Let_def stored_theme_effect_def theme_effect_def setTheme_def
        initial_state_def readDeletedMap_def)

lemma mount_example: "mount bld example_browser = Inr example_mounted"
  by (cases bld)
     (simp_all add: mount_def Let_def stored_theme_effect_def theme_effect_def setTheme_def
        initial_state_def example_browser_def example_mounted_def or_else_def)

lemma loadMessages_ok:
  "ok status \<Longrightarrow>
   messages (loadMessages rnd now conv (Response status st text (Inr fetched)) s) =
     filter (\<lambda>msg. \<not> isMessageLocallyDeleted (page s) (key_of (conv_id conv)) (msg_id msg))
       (case fetched of None \<Rightarrow> [] | Some ms \<Rightarrow> ms)"
  by (simp add: loadMessages_def)

lemma page_loadMessages [simp]: "page (loadMessages rnd now conv result s) = page s"
  by (simp add: loadMessages_def loadMessages_fallback_def split: fetch_result.splits sum.splits)

lemma currentConversation_loadMessages [simp]:
  "currentConversation (loadMessages rnd now conv result s) = currentConversation s"
  by (simp add: loadMessages_def loadMessages_fallback_def split: fetch_result.splits sum.splits)

lemma deleteMessage_finish_failed: "failed result \<Longrightarrow> deleteMessage_finish c msg result s = s"
  by (simp add: failed_def deleteMessage_finish_def split: fetch_result.splits)

lemma deleteMessage_with_conversation:
  assumes cur: "currentConversation s = Some c"
    and av: "storage (page s) = Available"
    and ni: "property_of (readDeletedMap (page s)) (key_of (conv_id c)) \<noteq> Inherited"
  shows "(\<exists>s1. deleteMessage_start msg s =
                 (s1, Some (c, Request (js ''DELETE'') ((js ''/messages/'') @ msg_id msg) None))
              \<and> messages s1 = filter (\<lambda>m. msg_id m \<noteq> msg_id msg) (messages s)
              \<and> msg_id msg \<notin> msg_id ` set (messages s1)
              \<and> isMessageLocallyDeleted (page s1) (key_of (conv_id c)) (msg_id msg))
       \<and> (failed result \<longrightarrow>
            isMessageLocallyDeleted (page (deleteMessage msg result s)) (key_of (conv_id c)) (msg_id msg)
            \<and> (\<forall>bld. \<exists>s2. reload bld (deleteMessage msg result s) = Inr s2
                  \<and> (\<forall>rnd now c' status st text fetched.
                        ok status \<and> key_of (conv_id c') = key_of (conv_id c) \<longrightarrow>
                        msg_id msg \<notin> msg_id ` set (messages
                          (loadMessages rnd now c' (Response status st text (Inr fetched))
                             (selectConversation c' s2))))))
       \<and> (\<not> failed result \<longrightarrow>
            \<not> isMessageLocallyDeleted (page (deleteMessage msg result s)) (key_of (conv_id c)) (msg_id msg))"
proof -
  let ?k = "key_of (conv_id c)"
  from mark_records [OF av ni, of "msg_id msg"] obtain b1 where
    b1: "markMessageDeletedLocally ?k (msg_id msg) (page s) = Inr b1" "storage b1 = Available"
      "stored_ids b1 ?k = (if msg_id msg \<in> set (stored_ids (page s) ?k) then stored_ids (page s) ?k
                            else stored_ids (page s) ?k @ [msg_id msg])"
      "property_of (readDeletedMap b1) ?k \<noteq> Inherited"
    by blast
  let ?s1 = "s\<lparr>messages := filter (\<lambda>m. msg_id m \<noteq> msg_id msg) (messages s), page := b1\<rparr>"
  have start: "deleteMessage_start msg s =
      (?s1, Some (c, Request (js ''DELETE'') ((js ''/messages/'') @ msg_id msg) None))"
    using cur b1(1) by (simp add: deleteMessage_start_def Let_def)
  have marked: "isMessageLocallyDeleted b1 ?k (msg_id msg)"
    by (simp add: isMessageLocallyDeleted_stored_ids b1(3))
  have whole: "deleteMessage msg r s = deleteMessage_finish c msg r ?s1" for r
    by (simp add: deleteMessage_def start)
  have part1: "\<exists>s1. deleteMessage_start msg s =
                 (s1, Some (c, Request (js ''DELETE'') ((js ''/messages/'') @ msg_id msg) None))
              \<and> messages s1 = filter (\<lambda>m. msg_id m \<noteq> msg_id msg) (messages s)
              \<and> msg_id msg \<notin> msg_id ` set (messages s1)
              \<and> isMessageLocallyDeleted (page s1) ?k (msg_id msg)"
    using start marked by auto
  have part2: "isMessageLocallyDeleted (page (deleteMessage msg result s)) ?k (msg_id msg)
            \<and> (\<forall>bld. \<exists>s2. reload bld (deleteMessage msg result s) = Inr s2
                  \<and> (\<forall>rnd now c' status st text fetched.
                        ok status \<and> key_of (conv_id c') = ?k \<longrightarrow>
                        msg_id msg \<notin> msg_id ` set (messages
                          (loadMessages rnd now c' (Response status st text (Inr fetched))
                             (selectConversation c' s2)))))"
    if f: "failed result"
  proof -
    have same: "deleteMessage msg result s = ?s1"
      using f by (simp add: whole deleteMessage_finish_failed)
    have re: "\<exists>s2. reload bld ?s1 = Inr s2
                  \<and> (\<forall>rnd now c' status st text fetched.
                        ok status \<and> key_of (conv_id c') = ?k \<longrightarrow>
                        msg_id msg \<notin> msg_id ` set (messages
                          (loadMessages rnd now c' (Response status st text (Inr fetched))
                             (selectConversation c' s2))))" for bld
    proof -
      have "storage (b1\<lparr>dark_class := False\<rparr>) = Available"
        using b1(2) by simp
      from mount_available [OF this, of bld] obtain s2 where
        s2: "mount bld (b1\<lparr>dark_class := False\<rparr>) = Inr s2"
          "readDeletedMap (page s2) = readDeletedMap (b1\<lparr>dark_class := False\<rparr>)"
        by blast
      have r: "readDeletedMap (page s2) = readDeletedMap b1"
        using s2(2) by (simp add: readDeletedMap_def)
      have "isMessageLocallyDeleted (page s2) ?k (msg_id msg)"
        using marked by (simp add: isMessageLocallyDeleted_def r)
      then show ?thesis
        using s2(1) by (auto simp: reload_def loadMessages_ok selectConversation_def)
    qed
    show ?thesis
      using marked re by (simp add: same)
  qed
  have part3: "\<not> isMessageLocallyDeleted (page (deleteMessage msg result s)) ?k (msg_id msg)"
    if nf: "\<not> failed result"
  proof -
    from remove_records [OF b1(2) b1(4), of "msg_id msg"] obtain b2 where
      b2: "removeLocalDeletedMark ?k (msg_id msg) b1 = Inr b2"
        "stored_ids b2 ?k = filter (\<lambda>i. i \<noteq> msg_id msg) (stored_ids b1 ?k)"
      by blast
    have "deleteMessage msg result s = ?s1\<lparr>page := b2\<rparr>"
      using nf b2(1)
      by (cases result) (simp_all add: whole failed_def deleteMessage_finish_def)
    then show ?thesis
      by (simp add: isMessageLocallyDeleted_stored_ids b2(2))
  qed
  show ?thesis
    using part1 part2 part3 by blast
qed

lemma msg_id_user_msg: "msg_id (user_msg i txt) = i"
  by (simp add: user_msg_def)

lemma stale_state_fields:
  "currentConversation stale_state = None" "messages stale_state = [user_msg (js ''m1'') (js ''hello'')]"
  by (simp_all add: stale_state_def loadMessages_def ok_one_message_def ok_def
        currentConversation_effect_def deleteConversation_def selectConversation_def
        example_mounted_def initial_state_def Let_def example_conversation_def truthy_def
        isMessageLocallyDeleted_def readDeletedMap_def example_browser_def key_of_def user_msg_def
        or_else_def property_of_def)

lemma full_state_fields:
  "currentConversation full_state = Some example_conversation"
  "messages full_state = [user_msg (js ''m1'') (js ''hello''), user_msg (js ''m2'') (js ''again'')]"
  "page full_state = full_browser"
  by (simp_all add: full_state_def example_state_def initial_state_def)

text \<open>
  C1, as stated, fails. In a state without a current conversation that shows a message,
  deleting that message changes nothing: the handler returns before it touches the list or
  the storage, and no request leaves. And with a current conversation in a page whose
  storage takes no write, the message leaves the list and the request leaves, but nothing is
  recorded: after the failed request a load of the conversation shows the message again.
\<close>

theorem delete_without_conversation_counterexample:
  "currentConversation stale_state = None
   \<and> messages stale_state = [user_msg (js ''m1'') (js ''hello'')]
   \<and> deleteMessage_start (user_msg (js ''m1'') (js ''hello'')) stale_state = (stale_state, None)
   \<and> messages (deleteMessage (user_msg (js ''m1'') (js ''hello'')) not_found stale_state)
       = [user_msg (js ''m1'') (js ''hello'')]
   \<and> page (deleteMessage (user_msg (js ''m1'') (js ''hello'')) not_found stale_state) = page stale_state
   \<and> deleteMessage_start (user_msg (js ''m1'') (js ''hello'')) full_state
       = (full_state\<lparr>messages := [user_msg (js ''m2'') (js ''again'')]\<rparr>,
          Some (example_conversation, Request (js ''DELETE'') (js ''/messages/m1'') None))
   \<and> \<not> isMessageLocallyDeleted
         (page (deleteMessage (user_msg (js ''m1'') (js ''hello'')) not_found full_state))
         (js ''c1'') (js ''m1'')
   \<and> messages (loadMessages (js ''abc1234'') example_now example_conversation ok_one_message
         (deleteMessage (user_msg (js ''m1'') (js ''hello'')) not_found full_state))
       = [user_msg (js ''m1'') (js ''hello'')]"
proof -
  have k: "key_of (conv_id example_conversation) = js ''c1''"
    by (simp add: key_of_def example_conversation_def)
  have mk: "markMessageDeletedLocally (js ''c1'') (js ''m1'') full_browser = Inr full_browser"
    by (simp add: markMessageDeletedLocally_def Let_def full_browser_def example_browser_def
          readDeletedMap_def writeDeletedMap_def property_of_def)
  have st: "deleteMessage_start (user_msg (js ''m1'') (js ''hello'')) full_state
       = (full_state\<lparr>messages := [user_msg (js ''m2'') (js ''again'')]\<rparr>,
          Some (example_conversation, Request (js ''DELETE'') (js ''/messages/m1'') None))"
    by (simp add: deleteMessage_start_def full_state_fields k Let_def user_msg_def mk)
  have f: "failed (not_found :: unit fetch_result)"
    by (simp add: failed_def not_found_def ok_def)
  have dm: "deleteMessage (user_msg (js ''m1'') (js ''hello'')) not_found full_state
      = full_state\<lparr>messages := [user_msg (js ''m2'') (js ''again'')]\<rparr>"
    by (simp add: deleteMessage_def st deleteMessage_finish_failed [OF f])
  have nd: "\<not> isMessageLocallyDeleted full_browser (js ''c1'') (js ''m1'')"
    by (simp add: isMessageLocallyDeleted_def full_browser_def example_browser_def
          readDeletedMap_def property_of_def)
  have stale: "deleteMessage_start (user_msg (js ''m1'') (js ''hello'')) stale_state = (stale_state, None)"
      "deleteMessage (user_msg (js ''m1'') (js ''hello'')) not_found stale_state = stale_state"
    by (simp_all add: stale_state_fields deleteMessage_def deleteMessage_start_def)
  have full: "\<not> isMessageLocallyDeleted
         (page (deleteMessage (user_msg (js ''m1'') (js ''hello'')) not_found full_state))
         (js ''c1'') (js ''m1'')"
      "messages (loadMessages (js ''abc1234'') example_now example_conversation ok_one_message
         (deleteMessage (user_msg (js ''m1'') (js ''hello'')) not_found full_state))
       = [user_msg (js ''m1'') (js ''hello'')]"
    unfolding dm
    by (simp_all add: full_state_fields nd k loadMessages_def ok_one_message_def ok_def
          msg_id_user_msg)
  show ?thesis
    using stale full st by (simp add: stale_state_fields)
qed

text \<open>
  C1, amended. With a current conversation, an available storage and a conversation id
  under which the stored object has an array or has and inherits nothing, \<^verbatim>\<open>deleteMessage\<close>
  takes the message out of the list and records its id in the stored map before the request
  \<^verbatim>\<open>DELETE /messages/{id}\<close> leaves. When the request fails the record is still there, the page
  can be loaded again in either build, and whatever a later successful load for a
  conversation with the same id fetches after that, the message is not in the list. When
  the request succeeds the record is gone. Without a current conversation the handler does
  nothing.
\<close>

theorem deleteMessage_local_record:
  "(currentConversation s = Some c \<and> storage (page s) = Available
      \<and> property_of (readDeletedMap (page s)) (key_of (conv_id c)) \<noteq> Inherited \<longrightarrow>
      (\<exists>s1. deleteMessage_start msg s =
                 (s1, Some (c, Request (js ''DELETE'') ((js ''/messages/'') @ msg_id msg) None))
              \<and> messages s1 = filter (\<lambda>m. msg_id m \<noteq> msg_id msg) (messages s)
              \<and> msg_id msg \<notin> msg_id ` set (messages s1)
              \<and> isMessageLocallyDeleted (page s1) (key_of (conv_id c)) (msg_id msg))
       \<and> (failed result \<longrightarrow>
            isMessageLocallyDeleted (page (deleteMessage msg result s)) (key_of (conv_id c)) (msg_id msg)
            \<and> (\<forall>bld. \<exists>s2. reload bld (deleteMessage msg result s) = Inr s2
                  \<and> (\<forall>rnd now c' status st text fetched.
                        ok status \<and> key_of (conv_id c') = key_of (conv_id c) \<longrightarrow>
                        msg_id msg \<notin> msg_id ` set (messages
                          (loadMessages rnd now c' (Response status st text (Inr fetched))
                             (selectConversation c' s2))))))
       \<and> (\<not> failed result \<longrightarrow>
            \<not> isMessageLocallyDeleted (page (deleteMessage msg result s)) (key_of (conv_id c)) (msg_id msg)))
   \<and> (currentConversation s = None \<longrightarrow>
        deleteMessage_start msg s = (s, None) \<and> deleteMessage msg result s = s)"
proof (rule conjI; rule impI)
  assume "currentConversation s = Some c \<and> storage (page s) = Available
      \<and> property_of (readDeletedMap (page s)) (key_of (conv_id c)) \<noteq> Inherited"
  then have "currentConversation s = Some c" "storage (page s) = Available"
      "property_of (readDeletedMap (page s)) (key_of (conv_id c)) \<noteq> Inherited"
    by simp_all
  then show "(\<exists>s1. deleteMessage_start msg s =
                 (s1, Some (c, Request (js ''DELETE'') ((js ''/messages/'') @ msg_id msg) None))
              \<and> messages s1 = filter (\<lambda>m. msg_id m \<noteq> msg_id msg) (messages s)
              \<and> msg_id msg \<notin> msg_id ` set (messages s1)
              \<and> isMessageLocallyDeleted (page s1) (key_of (conv_id c)) (msg_id msg))
       \<and> (failed result \<longrightarrow>
            isMessageLocallyDeleted (page (deleteMessage msg result s)) (key_of (conv_id c)) (msg_id msg)
            \<and> (\<forall>bld. \<exists>s2. reload bld (deleteMessage msg result s) = Inr s2
                  \<and> (\<forall>rnd now c' status st text fetched.
                        ok status \<and> key_of (conv_id c') = key_of (conv_id c) \<longrightarrow>
                        msg_id msg \<notin> msg_id ` set (messages
                          (loadMessages rnd now c' (Response status st text (Inr fetched))
                             (selectConversation c' s2))))))
       \<and> (\<not> failed result \<longrightarrow>
            \<not> isMessageLocallyDeleted (page (deleteMessage msg result s)) (key_of (conv_id c)) (msg_id msg))"
    by (rule deleteMessage_with_conversation)
next
  assume "currentConversation s = None"
  then show "deleteMessage_start msg s = (s, None) \<and> deleteMessage msg result s = s"
    by (simp add: deleteMessage_def deleteMessage_start_def)
qed

theorem deleteMessage_local_record_witness:
  "currentConversation example_state = Some example_conversation
   \<and> storage (page example_state) = Available
   \<and> property_of (readDeletedMap (page example_state)) (key_of (conv_id example_conversation)) \<noteq> Inherited
   \<and> failed (not_found :: unit fetch_result)
   \<and> \<not> failed (Response 200 (js ''OK'') [] (Inr ()) :: unit fetch_result)
   \<and> isMessageLocallyDeleted
        (page (deleteMessage (user_msg (js ''m1'') (js ''hello'')) not_found example_state)) (js ''c1'') (js ''m1'')
   \<and> \<not> isMessageLocallyDeleted
        (page (deleteMessage (user_msg (js ''m1'') (js ''hello'')) (Response 200 (js ''OK'') [] (Inr ())) example_state))
        (js ''c1'') (js ''m1'')
   \<and> currentConversation stale_state = None
   \<and> deleteMessage (user_msg (js ''m1'') (js ''hello'')) not_found stale_state = stale_state"
proof -
  have cur: "currentConversation example_state = Some example_conversation"
    by (simp add: example_state_def)
  have av: "storage (page example_state) = Available"
    by (simp add: example_state_def initial_state_def example_browser_def)
  have k: "key_of (conv_id example_conversation) = (js ''c1'')"
    by (simp add: key_of_def example_conversation_def)
  have ni: "property_of (readDeletedMap (page example_state)) (key_of (conv_id example_conversation)) \<noteq> Inherited"
    by (simp add: k example_state_def initial_state_def example_browser_def readDeletedMap_def
          property_of_def)
  have f: "failed (not_found :: unit fetch_result)"
    by (simp add: failed_def not_found_def ok_def)
  have nf: "\<not> failed (Response 200 (js ''OK'') [] (Inr ()) :: unit fetch_result)"
    by (simp add: failed_def ok_def)
  note w1 = deleteMessage_local_record [where s = example_state and c = example_conversation
      and msg = "user_msg (js ''m1'') (js ''hello'')" and result = not_found]
  note w2 = deleteMessage_local_record [where s = example_state and c = example_conversation
      and msg = "user_msg (js ''m1'') (js ''hello'')" and result = "Response 200 (js ''OK'') [] (Inr ())"]
  note w3 = deleteMessage_local_record [where s = stale_state
      and msg = "user_msg (js ''m1'') (js ''hello'')" and result = not_found]
  from w1 cur av ni f have 1: "isMessageLocallyDeleted
        (page (deleteMessage (user_msg (js ''m1'') (js ''hello'')) not_found example_state)) (js ''c1'') (js ''m1'')"
    by (simp add: k msg_id_user_msg)
  from w2 cur av ni nf have 2: "\<not> isMessageLocallyDeleted
        (page (deleteMessage (user_msg (js ''m1'') (js ''hello'')) (Response 200 (js ''OK'') [] (Inr ())) example_state))
        (js ''c1'') (js ''m1'')"
    by (simp add: k msg_id_user_msg)
  from w3 stale_state_fields(1) have 3:
    "deleteMessage (user_msg (js ''m1'') (js ''hello'')) not_found stale_state = stale_state"
    by simp
  show ?thesis
    using cur av ni f nf 1 2 3 stale_state_fields(1) by (intro conjI)
qed

text \<open>
  Under a conversation id that the stored object only inherits, the handler takes the
  message out of the list and ends there: nothing is recorded and no request leaves.
\<close>

lemma deleteMessage_inherited_key:
  assumes "currentConversation s = Some c"
    and "property_of (readDeletedMap (page s)) (key_of (conv_id c)) = Inherited"
  shows "deleteMessage_start msg s =
           (s\<lparr>messages := filter (\<lambda>m. msg_id m \<noteq> msg_id msg) (messages s)\<rparr>, None)"
    and "deleteMessage msg result s =
           s\<lparr>messages := filter (\<lambda>m. msg_id m \<noteq> msg_id msg) (messages s)\<rparr>"
  using assms
  by (simp_all add: deleteMessage_def deleteMessage_start_def markMessageDeletedLocally_def Let_def)

section \<open>Facts about the concrete inputs\<close>

lemma trim_example: "trim (js '' hi there '') = (js ''hi there'')"
  by (simp add: trim_def is_space_def js_def)



lemma example_state_fields:
  "\<not> isSending example_state" "input example_state = (js '' hi there '')"
  "uploadedFile example_state = None" "selectedAgent example_state = (js ''general'')"
  "currentConversation example_state = Some example_conversation"
  "messages example_state = [user_msg (js ''m1'') (js ''hello''), user_msg (js ''m2'') (js ''again'')]"
  "page example_state = example_browser" "scrollRef example_state = None"
  "\<not> manualScroll example_state" "\<not> isTyping example_state"
  by (simp_all add: example_state_def initial_state_def)

lemma json_of_ok_chat: "json_of ok_chat = Some example_response"
  by (simp add: json_of_def ok_chat_def ok_def)

section \<open>Switching conversations\<close>

lemma json_of_failed: "failed result \<Longrightarrow> json_of result = None"
  by (simp add: failed_def json_of_def split: fetch_result.splits)

lemma loadMessages_json:
  "messages (loadMessages rnd now conv result s) =
     (case json_of result of
        None \<Rightarrow> messages (loadMessages_fallback rnd now s)
      | Some fetched \<Rightarrow>
          filter (\<lambda>msg. \<not> isMessageLocallyDeleted (page s) (key_of (conv_id conv)) (msg_id msg))
            (case fetched of None \<Rightarrow> [] | Some ms \<Rightarrow> ms))"
  by (simp add: loadMessages_def json_of_def split: fetch_result.splits sum.splits)

lemma loadConversation_p2_json:
  "messages_p2 (loadConversation_p2 cid result s) =
     (case json_of result of
        None \<Rightarrow> messages_p2 s
      | Some json \<Rightarrow> (case snd json of None \<Rightarrow> [] | Some ms \<Rightarrow> ms))"
  by (simp add: loadConversation_p2_def json_of_def split: fetch_result.splits sum.splits)

text \<open>
  C7, as stated, fails. In the older variant a rejected request leaves the list alone: after
  the current conversation has changed from the first to the second conversation and the
  request for the second one is rejected, the message of the first conversation is still
  the visible list. In \<^verbatim>\<open>ChatInterface.jsx\<close> a successful request for the first conversation
  that fetches the messages \<^verbatim>\<open>m0\<close> and \<^verbatim>\<open>m3\<close> shows \<^verbatim>\<open>m3\<close> alone, since \<^verbatim>\<open>m0\<close> is recorded as
  deleted.
\<close>

theorem switch_keeps_old_messages_counterexample:
  "messages_p2 (loadConversation_p2 (Some (js ''c2'')) (Rejected (js ''Failed to fetch''))
                  (selectConversation_p2 other_conversation example_state_p2))
     = [user_msg (js ''m1'') (js ''hello'')]
   \<and> ok_messages = Response 200 (js ''OK'') (js ''{...}'') (Inr (Some [user_msg (js ''m0'') (js ''old''), user_msg (js ''m3'') (js ''new'')]))
   \<and> messages (loadMessages (js ''abc1234'') example_now example_conversation ok_messages
                  (selectConversation example_conversation example_state))
       = [user_msg (js ''m3'') (js ''new'')]"
  by (simp add: loadConversation_p2_def selectConversation_p2_def example_state_p2_def
        ok_messages_def loadMessages_def ok_def selectConversation_def example_state_fields
        isMessageLocallyDeleted_map_of readDeletedMap_def example_browser_def key_of_def
        example_conversation_def user_msg_def)

text \<open>
  C7, amended. When the request for the messages of the new conversation succeeds, the
  visible list becomes the fetched messages, in \<^verbatim>\<open>ChatInterface.jsx\<close> without those recorded as
  deleted for that conversation, so nothing of the list shown before remains. When the
  request fails, \<^verbatim>\<open>ChatInterface.jsx\<close> shows the single placeholder greeting and the older
  variant keeps the list as it was. Without a current conversation the effect of either
  variant empties the list.
\<close>

theorem switch_conversation_messages:
  "(json_of result = Some fetched \<longrightarrow>
      messages (loadMessages rnd now c result s) =
        filter (\<lambda>msg. \<not> isMessageLocallyDeleted (page s) (key_of (conv_id c)) (msg_id msg))
          (case fetched of None \<Rightarrow> [] | Some ms \<Rightarrow> ms))
   \<and> (json_of result = None \<longrightarrow>
        messages (loadMessages rnd now c result s) =
          [\<lparr>msg_id = uid (js ''msg-'') rnd, role = (js ''assistant''),
            content = (js ''Hello! How can I help you today?''), timestamp = now,
            msg_file = None, sending = None, likes = None, dislikes = None\<rparr>])
   \<and> (currentConversation s = None \<longrightarrow> messages (fst (currentConversation_effect s)) = [])
   \<and> (json_of older_result = Some (cv, older_fetched) \<longrightarrow>
        messages_p2 (loadConversation_p2 cid older_result t)
          = (case older_fetched of None \<Rightarrow> [] | Some ms \<Rightarrow> ms))
   \<and> (json_of older_result = None \<longrightarrow>
        messages_p2 (loadConversation_p2 cid older_result t) = messages_p2 t)
   \<and> (currentConversation_p2 t = None \<longrightarrow> messages_p2 (fst (currentConversation_effect_p2 t)) = [])"
  by (simp add: loadMessages_json loadConversation_p2_json loadMessages_fallback_def
        currentConversation_effect_def currentConversation_effect_p2_def truthy_def)

theorem switch_conversation_messages_witness:
  "json_of ok_messages = Some (Some [user_msg (js ''m0'') (js ''old''), user_msg (js ''m3'') (js ''new'')])
   \<and> messages (loadMessages (js ''abc1234'') example_now other_conversation ok_messages
                  (selectConversation other_conversation example_state))
       = [user_msg (js ''m0'') (js ''old''), user_msg (js ''m3'') (js ''new'')]
   \<and> messages (loadMessages (js ''abc1234'') example_now example_conversation ok_messages example_state)
       = [user_msg (js ''m3'') (js ''new'')]
   \<and> json_of (not_found :: message list option fetch_result) = None
   \<and> map content (messages (loadMessages (js ''abc1234'') example_now other_conversation not_found
                  (selectConversation other_conversation example_state)))
       = [(js ''Hello! How can I help you today?'')]
   \<and> currentConversation (initial_state example_browser) = None
   \<and> messages (fst (currentConversation_effect (initial_state example_browser))) = []
   \<and> json_of ok_conversation = Some (Some other_conversation, Some [user_msg (js ''m7'') (js ''other'')])
   \<and> messages_p2 (loadConversation_p2 (Some (js ''c2'')) ok_conversation
                  (selectConversation_p2 other_conversation example_state_p2))
       = [user_msg (js ''m7'') (js ''other'')]
   \<and> json_of (not_found :: (conversation option \<times> message list option) fetch_result) = None
   \<and> messages_p2 (loadConversation_p2 (Some (js ''c2'')) not_found
                  (selectConversation_p2 other_conversation example_state_p2))
       = [user_msg (js ''m1'') (js ''hello'')]
   \<and> currentConversation_p2 (example_state_p2\<lparr>currentConversation_p2 := None\<rparr>) = None
   \<and> messages_p2 (fst (currentConversation_effect_p2 (example_state_p2\<lparr>currentConversation_p2 := None\<rparr>))) = []"
proof -
  have j1: "json_of ok_messages = Some (Some [user_msg (js ''m0'') (js ''old''), user_msg (js ''m3'') (js ''new'')])"
    by (simp add: json_of_def ok_messages_def ok_def)
  have j2: "json_of (not_found :: message list option fetch_result) = None"
    by (simp add: json_of_def not_found_def ok_def)
  have j3: "json_of ok_conversation = Some (Some other_conversation, Some [user_msg (js ''m7'') (js ''other'')])"
    by (simp add: json_of_def ok_conversation_def ok_def)
  have j4: "json_of (not_found :: (conversation option \<times> message list option) fetch_result) = None"
    by (simp add: json_of_def not_found_def ok_def)
  have n1: "currentConversation (initial_state example_browser) = None"
    by (simp add: initial_state_def)
  have d: "\<not> isMessageLocallyDeleted example_browser (js ''c2'') i"
      "isMessageLocallyDeleted example_browser (js ''c1'') i \<longleftrightarrow> i = (js ''m0'')" for i
    by (auto simp: isMessageLocallyDeleted_map_of readDeletedMap_def example_browser_def)
  have k: "key_of (conv_id other_conversation) = (js ''c2'')" "key_of (conv_id example_conversation) = (js ''c1'')"
    by (simp_all add: key_of_def other_conversation_def example_conversation_def)
  have p: "page (selectConversation other_conversation example_state) = example_browser"
    by (simp add: selectConversation_def example_state_fields)
  note w1 = switch_conversation_messages [where result = ok_messages
      and fetched = "Some [user_msg (js ''m0'') (js ''old''), user_msg (js ''m3'') (js ''new'')]"
      and rnd = "(js ''abc1234'')" and now = example_now and c = other_conversation
      and s = "selectConversation other_conversation example_state"
      and older_result = ok_conversation and cv = "Some other_conversation" and cid = "Some (js ''c2'')"
      and older_fetched = "Some [user_msg (js ''m7'') (js ''other'')]"
      and t = "selectConversation_p2 other_conversation example_state_p2"]
  note w2 = switch_conversation_messages [where result = ok_messages
      and fetched = "Some [user_msg (js ''m0'') (js ''old''), user_msg (js ''m3'') (js ''new'')]"
      and rnd = "(js ''abc1234'')" and now = example_now and c = example_conversation
      and s = example_state]
  note w3 = switch_conversation_messages [where result = not_found
      and rnd = "(js ''abc1234'')" and now = example_now and c = other_conversation
      and s = "selectConversation other_conversation example_state"
      and older_result = not_found and cid = "Some (js ''c2'')"
      and t = "selectConversation_p2 other_conversation example_state_p2"]
  note w4 = switch_conversation_messages [where s = "initial_state example_browser"
      and t = "example_state_p2\<lparr>currentConversation_p2 := None\<rparr>"]
  from w1 j1 j3 have 1:
    "messages (loadMessages (js ''abc1234'') example_now other_conversation ok_messages
                  (selectConversation other_conversation example_state))
       = [user_msg (js ''m0'') (js ''old''), user_msg (js ''m3'') (js ''new'')]"
    "messages_p2 (loadConversation_p2 (Some (js ''c2'')) ok_conversation
                  (selectConversation_p2 other_conversation example_state_p2))
       = [user_msg (js ''m7'') (js ''other'')]"
    by (simp_all add: k d p)
  from w2 j1 have 2:
    "messages (loadMessages (js ''abc1234'') example_now example_conversation ok_messages example_state)
       = [user_msg (js ''m3'') (js ''new'')]"
    by (simp add: k d example_state_fields user_msg_def)
  from w3 j2 j4 have 3:
    "map content (messages (loadMessages (js ''abc1234'') example_now other_conversation not_found
                  (selectConversation other_conversation example_state)))
       = [(js ''Hello! How can I help you today?'')]"
    "messages_p2 (loadConversation_p2 (Some (js ''c2'')) not_found
                  (selectConversation_p2 other_conversation example_state_p2))
       = [user_msg (js ''m1'') (js ''hello'')]"
    by (simp_all add: selectConversation_p2_def example_state_p2_def)
  from w4 n1 have 4:
    "messages (fst (currentConversation_effect (initial_state example_browser))) = []"
    "messages_p2 (fst (currentConversation_effect_p2 (example_state_p2\<lparr>currentConversation_p2 := None\<rparr>))) = []"
    by simp_all
  show ?thesis
    using j1 j2 j3 j4 n1 1 2 3 4 by (intro conjI) simp_all
qed

section \<open>No shown message is recorded as deleted\<close>

lemma no_deleted_shown_loadMessages:
  assumes "currentConversation s = Some conv"
    and "\<not> isMessageLocallyDeleted (page s) (key_of (conv_id conv)) (uid (js ''msg-'') rnd)"
  shows "no_deleted_shown (loadMessages rnd now conv result s)"
  using assms
  by (simp add: no_deleted_shown_def loadMessages_json loadMessages_fallback_def list_all_iff
      split: option.splits)

lemma no_deleted_shown_loadMessages_ok:
  assumes "currentConversation s = Some conv" and "json_of result = Some fetched"
  shows "no_deleted_shown (loadMessages rnd now conv result s)"
  using assms
  by (simp add: no_deleted_shown_def loadMessages_json list_all_iff split: option.splits)

lemma no_deleted_shown_effect:
  "currentConversation s = None \<Longrightarrow> no_deleted_shown (fst (currentConversation_effect s))"
  by (simp add: no_deleted_shown_def currentConversation_effect_def)

lemma no_deleted_shown_start:
  "no_deleted_shown s \<Longrightarrow> no_deleted_shown (fst (deleteMessage_start msg s))"
  by (auto simp: no_deleted_shown_def deleteMessage_start_def list_all_iff Let_def
        split: option.splits sum.splits dest: mark_deleted_only)

lemma no_deleted_shown_finish:
  "no_deleted_shown s \<Longrightarrow> no_deleted_shown (deleteMessage_finish c msg result s)"
  by (auto simp: no_deleted_shown_def deleteMessage_finish_def list_all_iff
        split: option.splits fetch_result.splits sum.splits dest: remove_deleted_only)

lemma no_deleted_shown_deleteMessage:
  "no_deleted_shown s \<Longrightarrow> no_deleted_shown (deleteMessage msg result s)"
proof -
  assume inv: "no_deleted_shown s"
  show ?thesis
  proof (cases "currentConversation s")
    case None
    then show ?thesis using inv by (simp add: deleteMessage_def deleteMessage_start_def)
  next
    case (Some c)
    then have "deleteMessage msg result s = fst (deleteMessage_start msg s)
        \<or> deleteMessage msg result s = deleteMessage_finish c msg result (fst (deleteMessage_start msg s))"
      by (simp add: deleteMessage_def deleteMessage_start_def Let_def split: sum.splits)
    then show ?thesis
      using inv by (auto simp: no_deleted_shown_start no_deleted_shown_finish)
  qed
qed

lemma switched_state_fields:
  "currentConversation switched_state = Some other_conversation"
  "messages switched_state = [user_msg (js ''m1'') (js ''hello'')]"
  "readDeletedMap (page switched_state) = [((js ''c1''), [(js ''m0'')]), ((js ''c2''), [(js ''m1'')])]"
  by (simp_all add: switched_state_def loadMessages_def ok_one_message_def ok_other_messages_def
        ok_def not_found_def selectConversation_def deleteMessage_def deleteMessage_start_def
        deleteMessage_finish_def markMessageDeletedLocally_def writeDeletedMap_def
        example_mounted_def initial_state_def Let_def example_conversation_def
        other_conversation_def truthy_def isMessageLocallyDeleted_map_of readDeletedMap_def
        example_browser_def key_of_def user_msg_def or_else_def property_of_def inherited_def)

text \<open>
  C5, as stated, fails. Selecting a conversation changes the current conversation at once
  and the list only when the load has settled. In the state reached by the steps above the
  second conversation is current, the list still shows the message \<^verbatim>\<open>m1\<close> of the first, and
  \<^verbatim>\<open>m1\<close> is recorded as deleted under the second.
\<close>

theorem deleted_message_shown_counterexample:
  "currentConversation switched_state = Some other_conversation
   \<and> messages switched_state = [user_msg (js ''m1'') (js ''hello'')]
   \<and> isMessageLocallyDeleted (page switched_state) (js ''c2'') (js ''m1'')
   \<and> \<not> no_deleted_shown switched_state"
  by (simp add: switched_state_fields no_deleted_shown_def isMessageLocallyDeleted_map_of
        other_conversation_def key_of_def user_msg_def)

text \<open>
  C5, amended. A successful load for a conversation leaves no message in the list whose id is
  recorded for that conversation. So loading the messages of the current conversation
  establishes the invariant; a failed load does too, by the placeholder greeting, whose
  random id is assumed not to be a recorded one.
  Without a current conversation the list is emptied. Deleting a message keeps the invariant
  in each of its steps: the optimistic removal together with the record, and the handling
  of the outcome of the request.
\<close>

theorem no_deleted_shown_preserved:
  "(json_of result = Some fetched \<longrightarrow>
      list_all (\<lambda>m. \<not> isMessageLocallyDeleted (page (loadMessages rnd now conv result s))
                         (key_of (conv_id conv)) (msg_id m))
        (messages (loadMessages rnd now conv result s)))
   \<and> (currentConversation s = Some conv \<and> json_of result = Some fetched
      \<longrightarrow> no_deleted_shown (loadMessages rnd now conv result s))
   \<and> (currentConversation s = Some conv
        \<and> \<not> isMessageLocallyDeleted (page s) (key_of (conv_id conv)) (uid (js ''msg-'') rnd)
      \<longrightarrow> no_deleted_shown (loadMessages rnd now conv result s))
   \<and> (currentConversation s = None \<longrightarrow> no_deleted_shown (fst (currentConversation_effect s)))
   \<and> (no_deleted_shown s \<longrightarrow> no_deleted_shown (fst (deleteMessage_start msg s)))
   \<and> (no_deleted_shown s \<longrightarrow> no_deleted_shown (deleteMessage_finish c msg dresult s))
   \<and> (no_deleted_shown s \<longrightarrow> no_deleted_shown (deleteMessage msg dresult s))"
proof (intro conjI impI; (elim conjE)?)
  show "list_all (\<lambda>m. \<not> isMessageLocallyDeleted (page (loadMessages rnd now conv result s))
                         (key_of (conv_id conv)) (msg_id m))
        (messages (loadMessages rnd now conv result s))"
    if "json_of result = Some fetched"
    using that by (simp add: loadMessages_json list_all_iff)
  show "no_deleted_shown (loadMessages rnd now conv result s)"
    if "currentConversation s = Some conv" "json_of result = Some fetched"
    using that by (rule no_deleted_shown_loadMessages_ok)
  show "no_deleted_shown (loadMessages rnd now conv result s)"
    if "currentConversation s = Some conv"
      "\<not> isMessageLocallyDeleted (page s) (key_of (conv_id conv)) (uid (js ''msg-'') rnd)"
    using that by (rule no_deleted_shown_loadMessages)
  show "no_deleted_shown (fst (currentConversation_effect s))" if "currentConversation s = None"
    using that by (rule no_deleted_shown_effect)
  show "no_deleted_shown (fst (deleteMessage_start msg s))" if "no_deleted_shown s"
    using that by (rule no_deleted_shown_start)
  show "no_deleted_shown (deleteMessage_finish c msg dresult s)" if "no_deleted_shown s"
    using that by (rule no_deleted_shown_finish)
  show "no_deleted_shown (deleteMessage msg dresult s)" if "no_deleted_shown s"
    using that by (rule no_deleted_shown_deleteMessage)
qed

theorem no_deleted_shown_preserved_witness:
  "currentConversation example_state = Some example_conversation
   \<and> json_of ok_messages = Some (Some [user_msg (js ''m0'') (js ''old''), user_msg (js ''m3'') (js ''new'')])
   \<and> \<not> isMessageLocallyDeleted (page example_state) (key_of (conv_id example_conversation))
         (uid (js ''msg-'') (js ''abc1234''))
   \<and> currentConversation (initial_state example_browser) = None
   \<and> no_deleted_shown example_state
   \<and> no_deleted_shown (loadMessages (js ''abc1234'') example_now example_conversation ok_messages example_state)
   \<and> no_deleted_shown (loadMessages (js ''abc1234'') example_now example_conversation not_found example_state)
   \<and> no_deleted_shown (fst (currentConversation_effect (initial_state example_browser)))
   \<and> no_deleted_shown (fst (deleteMessage_start (user_msg (js ''m1'') (js ''hello'')) example_state))
   \<and> no_deleted_shown (deleteMessage_finish other_conversation (user_msg (js ''m1'') (js ''hello'')) not_found example_state)
   \<and> no_deleted_shown (deleteMessage (user_msg (js ''m1'') (js ''hello'')) not_found example_state)"
proof -
  have cur: "currentConversation example_state = Some example_conversation"
    by (simp add: example_state_fields)
  have j: "json_of ok_messages = Some (Some [user_msg (js ''m0'') (js ''old''), user_msg (js ''m3'') (js ''new'')])"
    by (simp add: json_of_def ok_messages_def ok_def)
  have fresh: "\<not> isMessageLocallyDeleted (page example_state) (key_of (conv_id example_conversation))
         (uid (js ''msg-'') (js ''abc1234''))"
    by (simp add: example_state_fields isMessageLocallyDeleted_map_of readDeletedMap_def
          example_browser_def key_of_def example_conversation_def uid_def)
  have none: "currentConversation (initial_state example_browser) = None"
    by (simp add: initial_state_def)
  have inv: "no_deleted_shown example_state"
    by (simp add: no_deleted_shown_def example_state_fields isMessageLocallyDeleted_map_of
          readDeletedMap_def example_browser_def key_of_def example_conversation_def user_msg_def)
  note p1 = no_deleted_shown_preserved [where s = example_state and conv = example_conversation
      and result = ok_messages and fetched = "Some [user_msg (js ''m0'') (js ''old''), user_msg (js ''m3'') (js ''new'')]"
      and rnd = "(js ''abc1234'')" and now = example_now and msg = "user_msg (js ''m1'') (js ''hello'')"
      and c = other_conversation and dresult = not_found]
  note p2 = no_deleted_shown_preserved [where s = example_state and conv = example_conversation
      and result = not_found and rnd = "(js ''abc1234'')" and now = example_now]
  note p3 = no_deleted_shown_preserved [where s = "initial_state example_browser"]
  from p1 cur j have 1:
    "no_deleted_shown (loadMessages (js ''abc1234'') example_now example_conversation ok_messages example_state)"
    by blast
  from p2 cur fresh have 2:
    "no_deleted_shown (loadMessages (js ''abc1234'') example_now example_conversation not_found example_state)"
    by blast
  from p3 none have 3:
    "no_deleted_shown (fst (currentConversation_effect (initial_state example_browser)))"
    by blast
  from p1 inv have 4:
    "no_deleted_shown (fst (deleteMessage_start (user_msg (js ''m1'') (js ''hello'')) example_state))"
    "no_deleted_shown (deleteMessage_finish other_conversation (user_msg (js ''m1'') (js ''hello'')) not_found example_state)"
    "no_deleted_shown (deleteMessage (user_msg (js ''m1'') (js ''hello'')) not_found example_state)"
    by blast+
  show ?thesis
    using cur j fresh none inv 1 2 3 4 by (intro conjI)
qed

text \<open>
  The other handlers that write the list keep the invariant too; \<^verbatim>\<open>sendMessage\<close> does when the
  temporary id, and the id of a conversation it creates, are not recorded ones.
\<close>

lemma no_deleted_shown_newConversation: "no_deleted_shown (newConversation rnd now s)"
  by (simp add: no_deleted_shown_def newConversation_def Let_def)

lemma no_deleted_shown_deleteConversation:
  "no_deleted_shown s \<Longrightarrow> no_deleted_shown (deleteConversation confirmed conversation result s)"
  by (auto simp: no_deleted_shown_def deleteConversation_def Let_def split: option.splits)

lemma no_deleted_shown_saveEditedMessage:
  "no_deleted_shown s \<Longrightarrow> no_deleted_shown (saveEditedMessage mid newContent now s)"
  by (auto simp: no_deleted_shown_def saveEditedMessage_def list_all_iff split: option.splits)

lemma no_deleted_shown_sendMessage_start:
  assumes "no_deleted_shown s" and "currentConversation s = Some c" and "truthy (conv_id c)"
    and "\<not> isMessageLocallyDeleted (page s) (key_of (conv_id c)) (uid (js ''msg-temp-'') rnd_msg)"
  shows "no_deleted_shown (fst (sendMessage_start rnd_msg rnd_conv now s))"
  using assms
  by (auto simp: no_deleted_shown_def sendMessage_start_def Let_def list_all_iff)

lemma no_deleted_shown_sendMessage_start_new:
  assumes "currentConversation s = None" and "stored_ids (page s) (uid (js ''conv-'') rnd_conv) = []"
  shows "no_deleted_shown (fst (sendMessage_start rnd_msg rnd_conv now s))"
  using assms
  by (auto simp: no_deleted_shown_def sendMessage_start_def Let_def list_all_iff truthy_def
        key_of_def isMessageLocallyDeleted_stored_ids)

section \<open>Reconciling the temporary id\<close>

lemma or_else_truthy: "truthy v \<Longrightarrow> Some (or_else v d) = v"
  by (auto simp: truthy_def or_else_def split: option.splits)

lemma or_else_falsy: "\<not> truthy v \<Longrightarrow> or_else v d = d"
  by (auto simp: truthy_def or_else_def split: option.splits)

lemma reconcile_nth:
  "i < length ms \<Longrightarrow>
   reconcile tmp sid ms ! i =
     (if msg_id (ms ! i) = tmp then (ms ! i)\<lparr>msg_id := or_else sid tmp\<rparr> else ms ! i)"
  by (simp add: reconcile_def)

lemma reconcile_p2_nth:
  "i < length ms \<Longrightarrow>
   reconcile_p2 tmp json ms ! i =
     (if msg_id (ms ! i) = tmp
      then (ms ! i)\<lparr>sending := Some False, msg_id := or_else (server_id_p2 json) tmp\<rparr>
      else ms ! i)"
  by (simp add: reconcile_p2_def server_id_p2_def)

text \<open>
  C8, as stated, fails. The reconciliation step of the older variant changes a second field
  of the optimistic message: \<^verbatim>\<open>sending\<close> goes from \<^verbatim>\<open>true\<close> to \<^verbatim>\<open>false\<close>.
\<close>

theorem reconcile_clears_sending_counterexample:
  "sending tmp_message = Some True
   \<and> map sending (reconcile_p2 (js ''tmp-abc1234'') example_response [tmp_message]) = [Some False]"
  by (simp add: reconcile_p2_def tmp_message_def)

text \<open>
  C8, amended. The reconciliation step keeps the length and the order of the list and leaves
  every message with another id as it is. On the message with the temporary id it sets the
  id to the server id when the answer has a truthy one and keeps the temporary id otherwise;
  the older variant also sets \<^verbatim>\<open>sending\<close> to \<^verbatim>\<open>false\<close>. Role, content, timestamp and
  attachment are unchanged in both variants.
\<close>

theorem reconcile_frame:
  "length (reconcile tmp sid ms) = length ms
   \<and> length (reconcile_p2 tmp json ms) = length ms
   \<and> (\<forall>i < length ms.
        (msg_id (ms ! i) \<noteq> tmp \<longrightarrow>
           reconcile tmp sid ms ! i = ms ! i \<and> reconcile_p2 tmp json ms ! i = ms ! i)
      \<and> (msg_id (ms ! i) = tmp \<longrightarrow>
           reconcile tmp sid ms ! i = (ms ! i)\<lparr>msg_id := or_else sid tmp\<rparr>
         \<and> reconcile_p2 tmp json ms ! i =
             (ms ! i)\<lparr>sending := Some False, msg_id := or_else (server_id_p2 json) tmp\<rparr>
         \<and> (truthy sid \<longrightarrow> Some (msg_id (reconcile tmp sid ms ! i)) = sid)
         \<and> (\<not> truthy sid \<longrightarrow> msg_id (reconcile tmp sid ms ! i) = tmp)
         \<and> (truthy (server_id_p2 json) \<longrightarrow>
               Some (msg_id (reconcile_p2 tmp json ms ! i)) = server_id_p2 json)
         \<and> (\<not> truthy (server_id_p2 json) \<longrightarrow> msg_id (reconcile_p2 tmp json ms ! i) = tmp))
      \<and> role (reconcile tmp sid ms ! i) = role (ms ! i)
      \<and> content (reconcile tmp sid ms ! i) = content (ms ! i)
      \<and> timestamp (reconcile tmp sid ms ! i) = timestamp (ms ! i)
      \<and> msg_file (reconcile tmp sid ms ! i) = msg_file (ms ! i)
      \<and> role (reconcile_p2 tmp json ms ! i) = role (ms ! i)
      \<and> content (reconcile_p2 tmp json ms ! i) = content (ms ! i)
      \<and> timestamp (reconcile_p2 tmp json ms ! i) = timestamp (ms ! i)
      \<and> msg_file (reconcile_p2 tmp json ms ! i) = msg_file (ms ! i))"
  by (simp add: reconcile_nth reconcile_p2_nth or_else_truthy or_else_falsy)
     (simp add: reconcile_def reconcile_p2_def)

theorem reconcile_frame_witness:
  "(1::nat) < length [user_msg (js ''m1'') (js ''hello''), tmp_message]
   \<and> msg_id ([user_msg (js ''m1'') (js ''hello''), tmp_message] ! 1) = (js ''tmp-abc1234'')
   \<and> msg_id ([user_msg (js ''m1'') (js ''hello''), tmp_message] ! 0) \<noteq> (js ''tmp-abc1234'')
   \<and> truthy (Some (js ''42'')) \<and> truthy (server_id_p2 example_response)
   \<and> reconcile (js ''tmp-abc1234'') (Some (js ''42'')) [user_msg (js ''m1'') (js ''hello''), tmp_message]
       = [user_msg (js ''m1'') (js ''hello''), tmp_message\<lparr>msg_id := (js ''42'')\<rparr>]
   \<and> reconcile_p2 (js ''tmp-abc1234'') example_response [user_msg (js ''m1'') (js ''hello''), tmp_message]
       = [user_msg (js ''m1'') (js ''hello''), tmp_message\<lparr>sending := Some False, msg_id := (js ''42'')\<rparr>]
   \<and> \<not> truthy None
   \<and> reconcile (js ''tmp-abc1234'') None [user_msg (js ''m1'') (js ''hello''), tmp_message]
       = [user_msg (js ''m1'') (js ''hello''), tmp_message]"
proof -
  let ?ms = "[user_msg (js ''m1'') (js ''hello''), tmp_message]"
  have l: "(1::nat) < length ?ms" "(0::nat) < length ?ms"
    by simp_all
  have i1: "msg_id (?ms ! 1) = (js ''tmp-abc1234'')"
    by (simp add: tmp_message_def)
  have i0: "msg_id (?ms ! 0) \<noteq> (js ''tmp-abc1234'')"
    by (simp add: user_msg_def)
  have t: "truthy (Some (js ''42''))" "truthy (server_id_p2 example_response)" "\<not> truthy None"
      "server_id_p2 example_response = Some (js ''42'')"
    by (simp_all add: truthy_def server_id_p2_def example_response_def or_opt_def)
  note f = reconcile_frame [where ms = ?ms and tmp = "(js ''tmp-abc1234'')" and sid = "Some (js ''42'')"
      and json = example_response]
  note g = reconcile_frame [where ms = ?ms and tmp = "(js ''tmp-abc1234'')" and sid = None
      and json = example_response]
  from f l i1 i0 have e:
    "length (reconcile (js ''tmp-abc1234'') (Some (js ''42'')) ?ms) = 2"
    "reconcile (js ''tmp-abc1234'') (Some (js ''42'')) ?ms ! 0 = user_msg (js ''m1'') (js ''hello'')"
    "reconcile (js ''tmp-abc1234'') (Some (js ''42'')) ?ms ! 1 = tmp_message\<lparr>msg_id := or_else (Some (js ''42'')) (js ''tmp-abc1234'')\<rparr>"
    "length (reconcile_p2 (js ''tmp-abc1234'') example_response ?ms) = 2"
    "reconcile_p2 (js ''tmp-abc1234'') example_response ?ms ! 0 = user_msg (js ''m1'') (js ''hello'')"
    "reconcile_p2 (js ''tmp-abc1234'') example_response ?ms ! 1
       = tmp_message\<lparr>sending := Some False, msg_id := or_else (server_id_p2 example_response) (js ''tmp-abc1234'')\<rparr>"
    by auto
  from g l i1 i0 have e':
    "length (reconcile (js ''tmp-abc1234'') None ?ms) = 2"
    "reconcile (js ''tmp-abc1234'') None ?ms ! 0 = user_msg (js ''m1'') (js ''hello'')"
    "reconcile (js ''tmp-abc1234'') None ?ms ! 1 = tmp_message\<lparr>msg_id := or_else None (js ''tmp-abc1234'')\<rparr>"
    by auto
  have two: "xs = [xs ! 0, xs ! 1]" if "length xs = 2" for xs :: "message list"
    using that by (cases xs; cases "tl xs") auto
  have r1: "reconcile (js ''tmp-abc1234'') (Some (js ''42'')) ?ms = [user_msg (js ''m1'') (js ''hello''), tmp_message\<lparr>msg_id := (js ''42'')\<rparr>]"
    using two [OF e(1)] e(2,3) by (simp add: or_else_def)
  have r2: "reconcile_p2 (js ''tmp-abc1234'') example_response ?ms
       = [user_msg (js ''m1'') (js ''hello''), tmp_message\<lparr>sending := Some False, msg_id := (js ''42'')\<rparr>]"
    using two [OF e(4)] e(5,6) by (simp add: t or_else_def)
  have r3: "reconcile (js ''tmp-abc1234'') None ?ms = [user_msg (js ''m1'') (js ''hello''), tmp_message]"
    using two [OF e'(1)] e'(2,3) by (simp add: or_else_def tmp_message_def)
  show ?thesis
    using l i1 i0 t r1 r2 r3 by (intro conjI)
qed

section \<open>Sending a message\<close>

text \<open>The first step of \<^verbatim>\<open>sendMessage\<close> in a state that passes its guard.\<close>

lemma sendMessage_start_messages:
  assumes "\<not> isSending s" and "trim (input s) \<noteq> [] \<or> uploadedFile s \<noteq> None"
  shows "\<exists>ctx. snd (sendMessage_start rnd_msg rnd_conv now s) = Some ctx
           \<and> ctx_tempMsgId ctx = uid (js ''msg-temp-'') rnd_msg
           \<and> ctx_conversation ctx = currentConversation s
           \<and> ctx_convId ctx = (if truthy (current_id s) then key_of (current_id s)
                                else uid (js ''conv-'') rnd_conv)
           \<and> ctx_newConv ctx = (if truthy (current_id s) then None
                                 else Some (new_conversation rnd_conv now s))
           \<and> messages (fst (sendMessage_start rnd_msg rnd_conv now s))
               = messages s @ [optimistic_message rnd_msg now s]
           \<and> page (fst (sendMessage_start rnd_msg rnd_conv now s)) = page s
           \<and> currentConversation (fst (sendMessage_start rnd_msg rnd_conv now s))
               = (if truthy (current_id s) then currentConversation s
                  else Some (new_conversation rnd_conv now s))"
  using assms
  by (auto simp: sendMessage_start_def Let_def optimistic_message_def current_id_def
        new_conversation_def)

lemma messages_finally [simp]: "messages (sendMessage_finally s) = messages s"
  by (simp add: sendMessage_finally_def)

lemma messages_catch:
  "messages (sendMessage_catch rnd now e s) = messages s @
     [\<lparr>msg_id = uid (js ''msg-error-'') rnd, role = (js ''assistant''),
       content = (js ''**Error:** '') @ e @ (js ''. Please try again.''), timestamp = now,
       msg_file = None, sending = None, likes = None, dislikes = None\<rparr>]"
  by (simp add: sendMessage_catch_def)

lemma messages_success:
  "messages (sendMessage_success rnd now ctx rd s) =
     reconcile (ctx_tempMsgId ctx) (user_msg_id rd) (messages s) @
     [\<lparr>msg_id = or_else (assistant_msg_id rd) (uid (js ''msg-'') rnd), role = (js ''assistant''),
       content = or_else (response rd) (js ''Sorry, I couldn't process that request.''),
       timestamp = now, msg_file = None, sending = None, likes = None, dislikes = None\<rparr>]"
  by (simp add: sendMessage_success_def Let_def split: option.splits)

lemma messages_finish_failed:
  "failed result \<Longrightarrow>
   messages (sendMessage_finish rnd now ctx result s) = messages s @
     [\<lparr>msg_id = uid (js ''msg-error-'') rnd, role = (js ''assistant''),
       content = (js ''**Error:** '') @ error_text result @ (js ''. Please try again.''), timestamp = now,
       msg_file = None, sending = None, likes = None, dislikes = None\<rparr>]"
  by (cases result) (simp_all add: sendMessage_finish_def failed_def error_text_def messages_catch)

lemma messages_finish_ok:
  assumes "json_of result = Some rd"
  shows "messages (sendMessage_finish rnd now ctx result s) =
     messages (sendMessage_success rnd now ctx rd s)"
proof (cases result)
  case (Rejected e)
  with assms show ?thesis by (simp add: json_of_def)
next
  case (Response status statusText body_text parsed)
  with assms show ?thesis
    by (cases parsed; cases "ok status") (simp_all add: json_of_def sendMessage_finish_def)
qed

lemma page_finish [simp]: "page (sendMessage_finish rnd now ctx result s) = page s"
  by (simp add: sendMessage_finish_def sendMessage_finally_def sendMessage_catch_def
        sendMessage_success_def Let_def split: fetch_result.splits sum.splits option.splits)

lemma isSending_finish [simp]: "\<not> isSending (sendMessage_finish rnd now ctx result s)"
  by (simp add: sendMessage_finish_def sendMessage_finally_def)


text \<open>
  The reload that step 6 starts: none after a failure, and none for a conversation the
  handler has made itself; after a success in a conversation with an id, the effect loads
  for the conversation that step 6 has set.
\<close>

lemma reload_failed: "json_of result = None \<Longrightarrow> sendMessage_reload ctx result s' = None"
  by (simp add: sendMessage_reload_def)


lemma key_of_truthy: "truthy v \<Longrightarrow> Some (key_of v) = v"
  by (simp add: truthy_def key_of_def split: option.splits)

lemma reload_existing:
  assumes "json_of result = Some rd" and "ctx_conversation ctx = Some cc" and "truthy (conv_id cc)"
    and "ctx_convId ctx = key_of (conv_id cc)" and "currentConversation s = Some prev"
  shows "\<exists>c'. sendMessage_reload ctx result (sendMessage_finish rnd now ctx result s) = Some c'
           \<and> conv_id c' = conv_id prev"
proof -
  have k: "Some (ctx_convId ctx) = conv_id cc"
    using assms(3,4) by (simp add: key_of_truthy)
  have "currentConversation (sendMessage_finish rnd now ctx result s)
      = Some (prev\<lparr>title := or_opt (conversation_title rd) (title cc), updated_at := Some now\<rparr>)"
    using assms(1,2,5) k
    by (cases result)
       (auto simp: json_of_def sendMessage_finish_def sendMessage_finally_def
          sendMessage_success_def Let_def split: sum.splits if_splits)
  then show ?thesis
    using assms(1,2) k by (simp add: sendMessage_reload_def)
qed

text \<open>What a settled load shows depends on the id of its conversation and on the page only.\<close>

lemma loadMessages_messages_cong:
  "key_of (conv_id c) = key_of (conv_id c') \<Longrightarrow> page s = page s' \<Longrightarrow>
   messages (loadMessages rnd now c result s) = messages (loadMessages rnd now c' result s')"
  by (simp add: loadMessages_def loadMessages_fallback_def
      split: fetch_result.splits sum.splits)

text \<open>An event with nothing to settle changes nothing.\<close>

lemma settle_idle: "waiting x = None \<Longrightarrow> loading x = [] \<Longrightarrow> settle e x = x"
  by (cases e) simp_all

lemma foldl_settle_idle:
  "waiting x = None \<Longrightarrow> loading x = [] \<Longrightarrow> foldl (\<lambda>x e. settle e x) x events = x"
  by (induction events) (simp_all add: settle_idle)

lemma sendMessage_unfold:
  assumes "\<not> isSending s" and "trim (input s) \<noteq> [] \<or> uploadedFile s \<noteq> None"
  shows "\<exists>ctx. snd (sendMessage_start rnd_msg rnd_conv now s) = Some ctx
           \<and> sendMessage rnd_msg rnd_conv now events s
               = ui (foldl (\<lambda>x e. settle e x)
                      \<lparr>ui = fst (sendMessage_start rnd_msg rnd_conv now s), waiting = Some ctx,
                       loading = (if truthy (current_id s) then []
                                  else [new_conversation rnd_conv now s])\<rparr>
                      events)"
proof -
  obtain ctx where c: "snd (sendMessage_start rnd_msg rnd_conv now s) = Some ctx"
      "ctx_newConv ctx = (if truthy (current_id s) then None
                          else Some (new_conversation rnd_conv now s))"
    using sendMessage_start_messages [OF assms] by blast
  then show ?thesis
    by (cases "sendMessage_start rnd_msg rnd_conv now s") (auto simp: sendMessage_def)
qed

text \<open>The handler in a conversation that has an id.\<close>

lemma sendMessage_existing:
  assumes g: "\<not> isSending s" "trim (input s) \<noteq> [] \<or> uploadedFile s \<noteq> None"
    and t: "truthy (current_id s)"
  shows "failed result \<Longrightarrow>
           messages (sendMessage rnd_msg rnd_conv now (Answer rnd now' result # events) s)
             = messages s @ [optimistic_message rnd_msg now s] @
               [\<lparr>msg_id = uid (js ''msg-error-'') rnd, role = (js ''assistant''),
                 content = (js ''**Error:** '') @ error_text result @ (js ''. Please try again.''),
                 timestamp = now', msg_file = None, sending = None, likes = None, dislikes = None\<rparr>]"
    and "json_of result = Some rd \<Longrightarrow>
           messages (sendMessage rnd_msg rnd_conv now [Answer rnd now' result] s)
             = reconcile (uid (js ''msg-temp-'') rnd_msg) (user_msg_id rd)
                 (messages s @ [optimistic_message rnd_msg now s]) @
               [\<lparr>msg_id = or_else (assistant_msg_id rd) (uid (js ''msg-'') rnd), role = (js ''assistant''),
                 content = or_else (response rd) (js ''Sorry, I couldn't process that request.''),
                 timestamp = now', msg_file = None, sending = None, likes = None, dislikes = None\<rparr>]"
    and "json_of result = Some rd \<Longrightarrow> currentConversation s = Some c \<Longrightarrow>
           messages (sendMessage rnd_msg rnd_conv now [Answer rnd now' result, Load rnd_load now_load lr] s)
             = messages (loadMessages rnd_load now_load c lr s)"
proof -
  obtain ctx where c: "snd (sendMessage_start rnd_msg rnd_conv now s) = Some ctx"
      "ctx_tempMsgId ctx = uid (js ''msg-temp-'') rnd_msg"
      "ctx_conversation ctx = currentConversation s"
      "ctx_convId ctx = key_of (current_id s)"
      "messages (fst (sendMessage_start rnd_msg rnd_conv now s))
         = messages s @ [optimistic_message rnd_msg now s]"
      "page (fst (sendMessage_start rnd_msg rnd_conv now s)) = page s"
      "currentConversation (fst (sendMessage_start rnd_msg rnd_conv now s)) = currentConversation s"
    using sendMessage_start_messages [OF g, of rnd_msg rnd_conv now] t by auto
  let ?s1 = "fst (sendMessage_start rnd_msg rnd_conv now s)"
  have u: "sendMessage rnd_msg rnd_conv now evs s
      = ui (foldl (\<lambda>x e. settle e x) \<lparr>ui = ?s1, waiting = Some ctx, loading = []\<rparr> evs)" for evs
    using sendMessage_unfold [OF g, of rnd_msg rnd_conv now evs] c(1) t by auto
  from t obtain cc where cc: "currentConversation s = Some cc" "truthy (conv_id cc)"
      "current_id s = conv_id cc"
    by (cases "currentConversation s") (auto simp: current_id_def truthy_def)
  {
    assume f: "failed result"
    then have "sendMessage_reload ctx result x = None" for x
      by (simp add: reload_failed json_of_failed)
    then show "messages (sendMessage rnd_msg rnd_conv now (Answer rnd now' result # events) s)
             = messages s @ [optimistic_message rnd_msg now s] @
               [\<lparr>msg_id = uid (js ''msg-error-'') rnd, role = (js ''assistant''),
                 content = (js ''**Error:** '') @ error_text result @ (js ''. Please try again.''),
                 timestamp = now', msg_file = None, sending = None, likes = None, dislikes = None\<rparr>]"
      using f by (simp add: u Let_def foldl_settle_idle messages_finish_failed c(5))
  }
  {
    assume j: "json_of result = Some rd"
    show "messages (sendMessage rnd_msg rnd_conv now [Answer rnd now' result] s)
             = reconcile (uid (js ''msg-temp-'') rnd_msg) (user_msg_id rd)
                 (messages s @ [optimistic_message rnd_msg now s]) @
               [\<lparr>msg_id = or_else (assistant_msg_id rd) (uid (js ''msg-'') rnd), role = (js ''assistant''),
                 content = or_else (response rd) (js ''Sorry, I couldn't process that request.''),
                 timestamp = now', msg_file = None, sending = None, likes = None, dislikes = None\<rparr>]"
      by (simp add: u Let_def messages_finish_ok [OF j] messages_success c(2,5))
    assume cur: "currentConversation s = Some c"
    with cc have [simp]: "cc = c" by simp
    from reload_existing [OF j, of ctx c ?s1 c rnd now'] c(3,4,7) cc cur
    obtain c' where r: "sendMessage_reload ctx result (sendMessage_finish rnd now' ctx result ?s1) = Some c'"
        "conv_id c' = conv_id c"
      by auto
    have "messages (loadMessages rnd_load now_load c' lr (sendMessage_finish rnd now' ctx result ?s1))
        = messages (loadMessages rnd_load now_load c lr s)"
      by (rule loadMessages_messages_cong) (simp_all add: r(2) c(6))
    then show "messages (sendMessage rnd_msg rnd_conv now [Answer rnd now' result, Load rnd_load now_load lr] s)
             = messages (loadMessages rnd_load now_load c lr s)"
      by (simp add: u Let_def r(1))
  }
qed


text \<open>The older variant.\<close>

lemma reconcile_append:
  "reconcile tmp sid (ms @ [m]) = reconcile tmp sid ms @ reconcile tmp sid [m]"
  by (simp add: reconcile_def)



lemma reconcile_p2_append:
  "reconcile_p2 tmp json (ms @ [m]) = reconcile_p2 tmp json ms @ reconcile_p2 tmp json [m]"
  by (simp add: reconcile_p2_def)

lemma messages_loadConversations_p2 [simp]:
  "messages_p2 (loadConversations_p2 cl r s) = messages_p2 s"
  by (simp add: loadConversations_p2_def Let_def split: fetch_result.splits sum.splits option.splits
        list.splits prod.splits)

lemma currentConversation_loadConversations_p2 [simp]:
  "currentConversation_p2 (loadConversations_p2 (Some c) r s) = currentConversation_p2 s"
  by (simp add: loadConversations_p2_def Let_def split: fetch_result.splits sum.splits option.splits
        list.splits prod.splits)















lemma ai_message_role [simp]: "role (ai_message rnd now r) = (js ''assistant'')"
  by (simp add: ai_message_def split: ai_item.splits)







text \<open>
  An empty \<^verbatim>\<open>ai_response\<close> array is truthy: nothing is appended for it, and the fallback message
  is not used either.
\<close>

lemma ai_messages_empty_array:
  "ai_response json = Some (AiArray []) \<Longrightarrow> ai_messages rnds now json = []"
  by (simp add: ai_messages_def)











text \<open>
  C2, evaluated on \<^verbatim>\<open>ChatInterface.jsx\<close>. With the conversation \<^verbatim>\<open>c1\<close>, the agent \<^verbatim>\<open>general\<close> and
  the input \<^verbatim>\<open>" hi there "\<close>, the body of the request has the fields \<^verbatim>\<open>conversation_id\<close>,
  \<^verbatim>\<open>agent_id\<close> and \<^verbatim>\<open>message\<close>, and no \<^verbatim>\<open>agent_type\<close>. An answer that carries \<^verbatim>\<open>ai_response\<close> and
  \<^verbatim>\<open>user_message_id\<close> leaves the temporary id in place and shows the fallback text as the
  assistant's reply.
\<close>

theorem chat_contract_ChatInterface:
  "snd (sendMessage_start (js ''abc1234'') (js ''def5678'') example_now example_state) =
     Some \<lparr>ctx_tempMsgId = (js ''msg-temp-abc1234''), ctx_convId = (js ''c1''),
           ctx_conversation = Some example_conversation, ctx_newConv = None,
           ctx_request = Request (js ''POST'') (js ''/chat'')
             (Some [((js ''conversation_id''), JStr (js ''c1'')), ((js ''agent_id''), JStr (js ''general'')),
                    ((js ''message''), JStr (js ''hi there'')), ((js ''file_data''), JUndefined),
                    ((js ''file_name''), JUndefined)])\<rparr>
   \<and> body_fields (chat_payload (js ''c1'') (js ''general'') (js ''hi there'') None)
       = [(js ''conversation_id''), (js ''agent_id''), (js ''message'')]
   \<and> ai_response example_response = Some (AiOne (AiString (js ''Hello!'')))
   \<and> user_message_id example_response = Some (js ''42'')
   \<and> map msg_id (messages (sendMessage (js ''abc1234'') (js ''def5678'') example_now
         [Answer (js ''ghi9012'') example_now ok_chat] example_state))
       = [(js ''m1''), (js ''m2''), (js ''msg-temp-abc1234''), (js ''msg-ghi9012'')]
   \<and> map content (messages (sendMessage (js ''abc1234'') (js ''def5678'') example_now
         [Answer (js ''ghi9012'') example_now ok_chat] example_state))
       = [(js ''hello''), (js ''again''), (js ''hi there''), (js ''Sorry, I couldn't process that request.'')]"
proof -
  have start: "sendMessage_start (js ''abc1234'') (js ''def5678'') example_now example_state =
     (example_state\<lparr>isSending := True, input := [], uploadedFile := None,
        messages := messages example_state @ [optimistic_message (js ''abc1234'') example_now example_state],
        isTyping := True\<rparr>,
      Some \<lparr>ctx_tempMsgId = (js ''msg-temp-abc1234''), ctx_convId = (js ''c1''),
           ctx_conversation = Some example_conversation, ctx_newConv = None,
           ctx_request = Request (js ''POST'') (js ''/chat'')
             (Some [((js ''conversation_id''), JStr (js ''c1'')), ((js ''agent_id''), JStr (js ''general'')),
                    ((js ''message''), JStr (js ''hi there'')), ((js ''file_data''), JUndefined),
                    ((js ''file_name''), JUndefined)])\<rparr>)"
    by (simp add: sendMessage_start_def example_state_fields trim_example Let_def uid_def
          truthy_def key_of_def example_conversation_def chat_payload_def optimistic_message_def)
  have g: "\<not> isSending example_state" "trim (input example_state) \<noteq> [] \<or> uploadedFile example_state \<noteq> None"
    by (simp_all add: example_state_fields trim_example)
  have t: "truthy (current_id example_state)"
    by (simp add: current_id_def example_state_fields example_conversation_def truthy_def)
  have fin: "messages (sendMessage (js ''abc1234'') (js ''def5678'') example_now
         [Answer (js ''ghi9012'') example_now ok_chat] example_state)
      = [user_msg (js ''m1'') (js ''hello''), user_msg (js ''m2'') (js ''again''),
         optimistic_message (js ''abc1234'') example_now example_state,
         \<lparr>msg_id = (js ''msg-ghi9012''), role = (js ''assistant''),
          content = (js ''Sorry, I couldn't process that request.''), timestamp = example_now,
          msg_file = None, sending = None, likes = None, dislikes = None\<rparr>]"
    by (simp add: sendMessage_existing(2) [OF g t json_of_ok_chat]
          example_state_fields reconcile_def user_msg_def optimistic_message_def uid_def
          example_response_def or_else_def)
  show ?thesis
    by (simp add: start fin body_fields_def chat_payload_def user_msg_def optimistic_message_def
          uid_def example_state_fields trim_example example_response_def)
qed

text \<open>
  The body of the older variant has \<^verbatim>\<open>message\<close>, \<^verbatim>\<open>conversation_id\<close> when there is a current
  conversation with an id, \<^verbatim>\<open>agent_type\<close>, and \<^verbatim>\<open>file\<close> when an upload came with data.
\<close>

lemma chat_body_p2_fields:
  "body_fields (chat_body_p2 txt conv agent filePayload) =
     [(js ''message'')]
     @ (if (case conv of None \<Rightarrow> None | Some c \<Rightarrow> conv_id c) = None then [] else [(js ''conversation_id'')])
     @ [(js ''agent_type'')]
     @ (case filePayload of
          None \<Rightarrow> []
        | Some fp \<Rightarrow> (case data fp of None \<Rightarrow> [] | Some d \<Rightarrow> [(js ''file'')]))"
  by (auto simp: body_fields_def chat_body_p2_def jstr_opt_def split: option.splits)

section \<open>Theme\<close>

text \<open>
  With an available storage: a click stores the flipped theme and sets the class to match;
  a reload in a production build reads the stored theme back; a reload in a development
  build ends with the light theme whatever was stored.
\<close>

lemma toggleTheme_available:
  assumes "storage (page s) = Available"
  shows "toggleTheme s =
           Inr (s\<lparr>theme := (if theme s = js ''light'' then js ''dark'' else js ''light''),
                  page := (page s)\<lparr>dark_class := (theme s = js ''light''),
                                   ls_theme := Some (if theme s = js ''light'' then js ''dark'' else js ''light'')\<rparr>\<rparr>)"
  using assms by (simp add: toggleTheme_def setTheme_def theme_effect_def)

lemma reload_Production:
  assumes "storage (page s) = Available" and "ls_theme (page s) = Some t" and "t \<noteq> []"
  shows "\<exists>s'. reload Production s = Inr s' \<and> theme s' = t \<and> ls_theme (page s') = Some t
              \<and> dark_class (page s') = (t = js ''dark'')"
  using assms
  by (auto simp add: reload_def mount_def stored_theme_effect_def theme_effect_def setTheme_def
        initial_state_def or_else_def truthy_def)

lemma reload_Development:
  assumes "storage (page s) = Available"
  shows "\<exists>s'. reload Development s = Inr s' \<and> theme s' = js ''light''
              \<and> ls_theme (page s') = Some (js ''light'') \<and> \<not> dark_class (page s')"
  using assms
  by (simp add: reload_def mount_def stored_theme_effect_def theme_effect_def setTheme_def
        initial_state_def or_else_def truthy_def)

text \<open>
  \<^verbatim>\<open>ThemeToggle\<close> on a page of its own: a click stores the flipped theme, and a reload gives the
  same theme and the same page. Inside the older variant the class after a reload follows
  the theme of the variant, not the theme of \<^verbatim>\<open>ThemeToggle\<close>.
\<close>

lemma ThemeToggle_persists:
  assumes "storage b = Available"
    and "t' = (if t = js ''dark'' then js ''light'' else js ''dark'')"
    and "b' = b\<lparr>dark_class := (t' = js ''dark''), ls_toggle_theme := Some t'\<rparr>"
  shows "ThemeToggle_click (t, b) = Inr (t', b')"
    and "ThemeToggle_reload prefers_dark (t', b') = Inr (t', b')"
  using assms
  by (simp_all add: ThemeToggle_click_def ThemeToggle_effect_def ThemeToggle_reload_def
        ThemeToggle_mount_def ThemeToggle_init_def Let_def)

lemma reload_themes_p2_class:
  assumes "storage b = Available"
  shows "\<exists>tt' b'. reload_themes_p2 prefers_dark (t, tt, b)
                    = Inr (or_else (ls_theme_p2 b) (js ''dark''), tt', b')
                \<and> ls_toggle_theme b' = Some tt'
                \<and> dark_class b' = (or_else (ls_theme_p2 b) (js ''dark'') = js ''dark'')"
  using assms
  by (simp add: reload_themes_p2_def mount_themes_p2_def theme_init_p2_def theme_effect_p2_def
        ThemeToggle_mount_def ThemeToggle_init_def ThemeToggle_effect_def Let_def)

text \<open>
  C6 fails for the component as the repository runs it. \<^verbatim>\<open>main.jsx\<close> renders the application
  inside \<^verbatim>\<open>React.StrictMode\<close>, and a development build then runs the effects of the mounting
  component twice: the theme effect of the first render stores \<^verbatim>\<open>light\<close> before the second run
  of the first effect reads the stored value. After a click on the theme button of the
  mounted component the theme is \<^verbatim>\<open>dark\<close>, the stored value is \<^verbatim>\<open>dark\<close> and the class is set. A
  reload in a production build gives this state again. A reload in a development build gives
  the theme \<^verbatim>\<open>light\<close>, the stored value \<^verbatim>\<open>light\<close> in place of the toggled one, and no class.

  \<^verbatim>\<open>ThemeToggle\<close> is rendered in the header of the older variant, which has a theme of its own.
  Mounted there on a system that prefers dark, a click on it makes its theme \<^verbatim>\<open>light\<close>, stores
  \<^verbatim>\<open>light\<close> and removes the class. After a reload it reads \<^verbatim>\<open>light\<close> back, and the theme effect
  of the variant, which runs after the effect of its child, sets the class again: the class
  does not match the value \<^verbatim>\<open>ThemeToggle\<close> has stored and read back.
\<close>

theorem stored_theme_lost_on_reload:
  "toggleTheme example_mounted = Inr dark_state
   \<and> theme dark_state = js ''dark''
   \<and> ls_theme (page dark_state) = Some (js ''dark'')
   \<and> dark_class (page dark_state)
   \<and> reload Production dark_state = Inr dark_state
   \<and> reload Development dark_state = Inr example_mounted
   \<and> theme example_mounted = js ''light''
   \<and> ls_theme (page example_mounted) = Some (js ''light'')
   \<and> \<not> dark_class (page example_mounted)
   \<and> mount_themes_p2 True example_browser = Inr (js ''dark'', js ''dark'', older_page)
   \<and> ThemeToggle_click_p2 (js ''dark'', js ''dark'', older_page)
       = Inr (js ''dark'', js ''light'', older_page_toggled)
   \<and> ls_toggle_theme older_page_toggled = Some (js ''light'')
   \<and> \<not> dark_class older_page_toggled
   \<and> reload_themes_p2 True (js ''dark'', js ''light'', older_page_toggled)
       = Inr (js ''dark'', js ''light'', older_page_toggled\<lparr>dark_class := True\<rparr>)"
  by (simp add: toggleTheme_def setTheme_def theme_effect_def reload_def mount_def
        stored_theme_effect_def initial_state_def or_else_def truthy_def dark_state_def
        example_mounted_def example_browser_def older_page_def older_page_toggled_def
        mount_themes_p2_def ThemeToggle_click_p2_def reload_themes_p2_def theme_init_p2_def
        theme_effect_p2_def ThemeToggle_mount_def ThemeToggle_init_def ThemeToggle_effect_def
        ThemeToggle_click_def Let_def)

section \<open>Scrolling\<close>

text \<open>
  The comparison of \<^verbatim>\<open>handleScroll\<close> on two containers: one far above its bottom, and one whose
  position lies less than 10 pixels and a rounding error above it, where the rounded sum
  decides.
\<close>

lemma double_110: "double 110 = 110"
  by (simp add: double_def binade.simps pow2_def round_even_def Let_def)

lemma isAtBottom_far_element: "\<not> isAtBottom far_element"
  by (simp add: isAtBottom_def far_element_def double_110)

lemma floor_half: "\<lfloor>(9147936743096319 :: rat) / 2\<rfloor> = 4573968371548159"
  by (simp add: floor_eq_iff)

lemma double_near: "double (9147936743096319 / 17592186044416) = 520"
  by (simp add: double_def binade.simps pow2_def round_even_def Let_def floor_half)

lemma isAtBottom_near_element:
  "isAtBottom near_element
   \<and> \<not> of_int (scrollHeight near_element - clientHeight near_element) \<le> scrollTop near_element + 10"
  by (simp add: isAtBottom_def near_element_def double_near)

text \<open>
  What the effect and the listener do once \<^verbatim>\<open>scrollRef.current\<close> holds the container, and that
  neither rendering nor mounting puts it there.
\<close>

lemma scroll_effect_attached:
  "scroll_effect (s\<lparr>scrollRef := Some element\<rparr>) =
     (if \<not> manualScroll s \<or> isSending s \<or> isTyping s then (Some (scrollHeight element), True)
      else (None, True))"
  by (simp add: scroll_effect_def)

lemma scroll_event_registered:
  "scroll_event True node s = s\<lparr>manualScroll := \<not> isAtBottom node\<rparr>"
  by (simp add: scroll_event_def handleScroll_def)

lemma scrollRef_render: "scrollRef (render node s) = scrollRef s"
  by (simp add: render_def ScrollArea_ref_def)

lemma scrollRef_mount: "mount bld b = Inr s \<Longrightarrow> scrollRef s = None"
  by (auto simp add: mount_def stored_theme_effect_def theme_effect_def setTheme_def
        initial_state_def Let_def split: if_splits build.splits)

lemma scroll_effect_detached: "scrollRef s = None \<Longrightarrow> scroll_effect (render node s) = (None, False)"
  by (simp add: scroll_effect_def render_def ScrollArea_ref_def)

lemma scroll_event_detached:
  "scrollRef s = None \<Longrightarrow>
   scroll_event (snd (scroll_effect (render node s))) node (render node s) = render node s"
  by (simp add: scroll_event_def scroll_effect_def render_def ScrollArea_ref_def)

text \<open>
  C9 fails for the component. \<^verbatim>\<open>ScrollArea\<close> does not pass the ref on, so \<^verbatim>\<open>scrollRef.current\<close>
  stays \<^verbatim>\<open>null\<close> and the scroll effect returns at its first line. In the mounted component,
  after the first conversation has been selected and its messages have arrived, manual-scroll
  mode is off and the list has changed, but the effect scrolls nowhere and registers no
  listener. The container is 500 pixels above its bottom; its scroll event does not reach
  \<^verbatim>\<open>handleScroll\<close>, and manual-scroll mode is not entered. The last two conjuncts show what the
  claim expects: \<^verbatim>\<open>handleScroll\<close> on this container would enter manual-scroll mode, and the
  effect with the container in \<^verbatim>\<open>scrollRef.current\<close> would scroll to the bottom and register the
  listener.
\<close>

theorem scroll_container_never_reached:
  "messages shown_state = [user_msg (js ''m1'') (js ''hello'')]
   \<and> scrollRef shown_state = None
   \<and> \<not> manualScroll shown_state
   \<and> scroll_effect shown_state = (None, False)
   \<and> \<not> isAtBottom far_element
   \<and> scroll_event (snd (scroll_effect shown_state)) far_element shown_state = shown_state
   \<and> handleScroll far_element shown_state = shown_state\<lparr>manualScroll := True\<rparr>
   \<and> scroll_effect (shown_state\<lparr>scrollRef := Some far_element\<rparr>) = (Some 1000, True)"
proof -
  have nb: "\<not> isAtBottom far_element"
    by (rule isAtBottom_far_element)
  have sh: "scrollHeight far_element = 1000"
    by (simp add: far_element_def)
  have m: "messages shown_state = [user_msg (js ''m1'') (js ''hello'')]"
    and r: "scrollRef shown_state = None"
    and f: "\<not> manualScroll shown_state" "\<not> isSending shown_state" "\<not> isTyping shown_state"
    by (simp_all add: shown_state_def render_def ScrollArea_ref_def loadMessages_def
          selectConversation_def ok_one_message_def ok_def example_conversation_def
          example_mounted_def initial_state_def example_browser_def isMessageLocallyDeleted_map_of
          readDeletedMap_def key_of_def truthy_def user_msg_def js_def)
  show ?thesis
    by (simp add: m r f nb sh scroll_effect_def scroll_event_def handleScroll_def)
qed

text \<open>
  The condition for scrolling to the bottom holds in that state, manual-scroll mode being
  off, and still the effect scrolls nowhere, registers nothing, and the scroll event leaves
  manual-scroll mode off.
\<close>

theorem scroll_container_never_reached_witness:
  "\<not> manualScroll shown_state
   \<and> fst (scroll_effect shown_state) = None
   \<and> \<not> snd (scroll_effect shown_state)
   \<and> \<not> manualScroll (scroll_event (snd (scroll_effect shown_state)) far_element shown_state)
   \<and> manualScroll (handleScroll far_element shown_state)"
  using scroll_container_never_reached by (simp add: scroll_event_def)

end
